theory Spec2Isabelle
  imports Complex_Main "HOL-Library.Sublist" "HOL-Library.AList" "HOL-Library.Multiset"
begin

section \<open>Strings\<close>

text \<open>
  A JavaScript string is represented by its UTF-8 encoding, one \<^typ>\<open>char\<close> per byte.
  The handlers only compare strings, test them for emptiness, test an ASCII prefix
  (\<open>startsWith\<close>), cut them at the first \<open>':'\<close> (\<open>split(':')[0]\<close>) and measure
  them; on strings without lone surrogates all of these commute with the encoding.
\<close>

definition byteLength :: "string \<Rightarrow> nat" where
  \<comment> \<open>\<open>Buffer.byteLength(s, 'utf8')\<close> on a string.\<close>
  "byteLength s = length s"

definition utf16_length :: "string \<Rightarrow> nat" where
  \<comment> \<open>\<open>s.length\<close>: UTF-16 code units; one per non-continuation byte, and one more
      for every lead byte of a four-byte sequence.\<close>
  "utf16_length s =
     length (filter (\<lambda>c. \<not> (128 \<le> (of_char c :: nat) \<and> (of_char c :: nat) < 192)) s)
     + length (filter (\<lambda>c. 240 \<le> (of_char c :: nat)) s)"

definition startsWith :: "string \<Rightarrow> string \<Rightarrow> bool" where
  "startsWith s p = prefix p s"

definition split_first :: "string \<Rightarrow> string" where
  \<comment> \<open>\<open>key.split(':')[0]\<close>: the part before the first colon, the whole string
      when it has none.\<close>
  "split_first s = takeWhile (\<lambda>c. c \<noteq> CHR '':'') s"

section \<open>Key classifier (database-entry/page.tsx, formatDataType)\<close>

definition formatDataType :: "string \<Rightarrow> string" where
  "formatDataType k =
     (if startsWith k ''bubbleId:'' then ''Chat Message''
      else if startsWith k ''checkpointId:'' then ''Checkpoint''
      else if startsWith k ''codeBlockDiff:'' then ''Code Diff''
      else if startsWith k ''messageRequestContext:'' then ''Message Context''
      else if startsWith k ''composerData:'' then ''Composer Data''
      else if k = ''workbench.panel.aichat.view.aichat.chatdata'' then ''Chat Data''
      else if k = ''composer.composerData'' then ''Composer Metadata''
      else ''Unknown'')"

definition classify_spec :: "string \<Rightarrow> string" where
  \<comment> \<open>The eight rules in the order the specification lists them: the two exact
      matches first, then the five prefixes.\<close>
  "classify_spec k =
     (if k = ''workbench.panel.aichat.view.aichat.chatdata'' then ''Chat Data''
      else if k = ''composer.composerData'' then ''Composer Metadata''
      else if prefix ''bubbleId:'' k then ''Chat Message''
      else if prefix ''checkpointId:'' k then ''Checkpoint''
      else if prefix ''codeBlockDiff:'' k then ''Code Diff''
      else if prefix ''messageRequestContext:'' k then ''Message Context''
      else if prefix ''composerData:'' k then ''Composer Data''
      else ''Unknown'')"

definition categories :: "string list" where
  "categories =
     [''Chat Data'', ''Composer Metadata'', ''Chat Message'', ''Checkpoint'', ''Code Diff'',
      ''Message Context'', ''Composer Data'', ''Unknown'']"

section \<open>JavaScript values the handlers meet\<close>

datatype js_error = TypeError string | SyntaxError string | SystemError string

fun message :: "js_error \<Rightarrow> string" where
  "message (TypeError m) = m"
| "message (SyntaxError m) = m"
| "message (SystemError m) = m"

subsection \<open>Object literals used as tables\<close>

text \<open>
  The analyzer keeps its per-type tables in objects created by \<open>{}\<close>. A property read
  on such an object that finds no own property continues on \<open>Object.prototype\<close>: eleven
  names yield a built-in function there, and \<open>__proto__\<close> yields the prototype object
  itself. Own properties are an association list in insertion order (the order in which
  JavaScript enumerates integer-like names is not modelled; tables are read by name).
\<close>

definition inherited_functions :: "(string \<times> nat) list" where
  \<comment> \<open>The function-valued properties of \<open>Object.prototype\<close>, each with its \<open>length\<close>.\<close>
  "inherited_functions =
     [(''constructor'', 1), (''__defineGetter__'', 2), (''__defineSetter__'', 2),
      (''hasOwnProperty'', 1), (''__lookupGetter__'', 1), (''__lookupSetter__'', 1),
      (''isPrototypeOf'', 1), (''propertyIsEnumerable'', 1), (''toString'', 0),
      (''valueOf'', 0), (''toLocaleString'', 0)]"

datatype 'v property = Own 'v | InheritedFunction nat | InheritedObject | Absent

definition read_property :: "(string \<times> 'v) list \<Rightarrow> string \<Rightarrow> 'v property" where
  "read_property obj name =
     (case map_of obj name of
        Some v \<Rightarrow> Own v
      | None \<Rightarrow>
          (case map_of inherited_functions name of
             Some n \<Rightarrow> InheritedFunction n
           | None \<Rightarrow> if name = ''__proto__'' then InheritedObject else Absent))"

definition write_property :: "(string \<times> 'v) list \<Rightarrow> string \<Rightarrow> 'v \<Rightarrow> (string \<times> 'v) list" where
  \<comment> \<open>\<open>obj[name] = v\<close>. Under \<open>__proto__\<close> the analyzer only ever assigns a string,
      which the prototype setter ignores.\<close>
  "write_property obj name v = (if name = ''__proto__'' then obj else AList.update name v obj)"

text \<open>
  A counter or a size sum is a number, unless the first read of its name found an
  inherited value: then \<open>+\<close> concatenates, and the table holds the text of that value
  followed by the decimal renderings of the numbers added so far.
\<close>

datatype 'n cell = Num 'n | Text string "'n list"

definition or_zero_plus :: "('n::monoid_add) cell property \<Rightarrow> string \<Rightarrow> 'n \<Rightarrow> 'n cell" where
  \<comment> \<open>\<open>(obj[name] || 0) + k\<close>, given what the read of \<open>obj[name]\<close> found.\<close>
  "or_zero_plus p name k =
     (case p of
        Absent \<Rightarrow> Num (0 + k)
      | Own (Num n) \<Rightarrow> Num (n + k)
      | Own (Text f ns) \<Rightarrow> Text f (ns @ [k])
      | InheritedFunction _ \<Rightarrow> Text name [k]
      | InheritedObject \<Rightarrow> Text name [k])"

section \<open>Global database analyzer (api/statistics/route.ts)\<close>

text \<open>
  Sizes are the source's \<open>sizeMB\<close> numbers: a byte count divided by \<open>1024 * 1024\<close>.
  They are rationals here. Every such quotient is an exact double, and so is every sum
  of them below \<open>2 ^ 53\<close> bytes; the comparison with the double nearest to \<open>0.1\<close>
  holds for a byte count exactly when the comparison with one tenth does.
\<close>

definition calculateDataSizeMB :: "string option \<Rightarrow> rat" where
  "calculateDataSizeMB data =
     (case data of
        None \<Rightarrow> 0
      | Some s \<Rightarrow> if s = [] then 0 else of_nat (byteLength s) / (1024 * 1024))"

record storage_row =
  row_key :: string
  row_value :: "string option"

record sized_entry =
  se_key :: string
  se_sizeMB :: rat
  se_value :: string

record largest_entry =
  le_key :: string
  le_sizeMB :: rat
  le_type :: string

record GlobalDatabaseStats =
  totalEntries :: nat
  composerEntries :: nat
  otherEntries :: nat
  totalSizeMB :: rat
  composerDataSizeMB :: rat
  otherDataSizeMB :: rat
  entriesByType :: "(string \<times> nat cell) list"
  entriesSizeByType :: "(string \<times> rat cell) list"
  largestEntries :: "largest_entry list"
  sampleKeys :: "(string \<times> string list) list"

definition initial_stats :: GlobalDatabaseStats where
  "initial_stats =
     \<lparr>totalEntries = 0, composerEntries = 0, otherEntries = 0, totalSizeMB = 0,
      composerDataSizeMB = 0, otherDataSizeMB = 0, entriesByType = [],
      entriesSizeByType = [], largestEntries = [], sampleKeys = []\<rparr>"

definition keyType_of :: "string \<Rightarrow> string" where
  \<comment> \<open>\<open>key.split(':')[0] || 'unknown'\<close>\<close>
  "keyType_of k = (if split_first k = [] then ''unknown'' else split_first k)"

definition truthy_value :: "string option \<Rightarrow> bool" where
  \<comment> \<open>\<open>!value\<close> is false: neither null nor the empty string.\<close>
  "truthy_value v = (case v of None \<Rightarrow> False | Some s \<Rightarrow> s \<noteq> [])"

definition collect_sample ::
  "(string \<times> string list) list \<Rightarrow> string \<Rightarrow> string \<Rightarrow> js_error + (string \<times> string list) list" where
  \<comment> \<open>Lines 76 to 81 of the loop body.\<close>
  "collect_sample samples keyType k =
     (let samples1 = (case read_property samples keyType of
                        Absent \<Rightarrow> write_property samples keyType []
                      | _ \<Rightarrow> samples)
      in case read_property samples1 keyType of
           Own ks \<Rightarrow>
             if length ks < 3 then Inr (write_property samples1 keyType (ks @ [k]))
             else Inr samples1
         | InheritedFunction n \<Rightarrow>
             if n < 3
             then Inl (TypeError ''stats.sampleKeys[keyType].push is not a function'')
             else Inr samples1
         | InheritedObject \<Rightarrow> Inr samples1
         | Absent \<Rightarrow> Inl (TypeError ''Cannot read properties of undefined''))"

definition visit ::
  "GlobalDatabaseStats \<times> sized_entry list \<Rightarrow> storage_row \<Rightarrow>
   js_error option \<times> GlobalDatabaseStats \<times> sized_entry list" where
  \<comment> \<open>One pass of the \<open>for\<close> loop over \<open>allEntries\<close>; the state is returned as the
      pass left it, also when the pass throws.\<close>
  "visit acc entry =
     (case acc of (st, sized) \<Rightarrow>
      (case row_value entry of
         None \<Rightarrow> (None, st, sized)
       | Some v \<Rightarrow>
           if v = [] then (None, st, sized)
           else
             let k = row_key entry;
                 sizeMB = calculateDataSizeMB (Some v);
                 st1 = st\<lparr>totalSizeMB := totalSizeMB st + sizeMB\<rparr>;
                 sized1 = sized @ [\<lparr>se_key = k, se_sizeMB = sizeMB, se_value = v\<rparr>]
             in
               if startsWith k ''composerData:'' then
                 (None,
                  st1\<lparr>composerEntries := composerEntries st1 + 1,
                      composerDataSizeMB := composerDataSizeMB st1 + sizeMB\<rparr>,
                  sized1)
               else
                 let st2 = st1\<lparr>otherEntries := otherEntries st1 + 1,
                               otherDataSizeMB := otherDataSizeMB st1 + sizeMB\<rparr>;
                     keyType = keyType_of k;
                     counts = write_property (entriesByType st2) keyType
                                (or_zero_plus (read_property (entriesByType st2) keyType) keyType 1);
                     sizes = write_property (entriesSizeByType st2) keyType
                               (or_zero_plus (read_property (entriesSizeByType st2) keyType)
                                  keyType sizeMB);
                     st4 = st2\<lparr>entriesByType := counts, entriesSizeByType := sizes\<rparr>
                 in (case collect_sample (sampleKeys st4) keyType k of
                       Inl e \<Rightarrow> (Some e, st4, sized1)
                     | Inr samples \<Rightarrow> (None, st4\<lparr>sampleKeys := samples\<rparr>, sized1))))"

fun scan_entries ::
  "GlobalDatabaseStats \<times> sized_entry list \<Rightarrow> storage_row list \<Rightarrow>
   js_error option \<times> GlobalDatabaseStats \<times> sized_entry list" where
  "scan_entries acc [] = (None, acc)"
| "scan_entries acc (entry # entries) =
     (case visit acc entry of
        (Some e, acc') \<Rightarrow> (Some e, acc')
      | (None, acc') \<Rightarrow> scan_entries acc' entries)"

definition MIN_SIZE_MB :: rat where
  "MIN_SIZE_MB = 1 / 10"

definition kept_types :: "GlobalDatabaseStats \<Rightarrow> (string \<times> nat cell \<times> rat) list" where
  \<comment> \<open>The names of \<open>entriesByType\<close> that pass
      \<open>(stats.entriesSizeByType[keyType] || 0) >= MIN_SIZE_MB\<close>, each with its count and
      its size. A text or a function compares as NaN, which is never at least anything.\<close>
  "kept_types st =
     List.map_filter
       (\<lambda>(keyType, count).
          case read_property (entriesSizeByType st) keyType of
            Own (Num totalSize) \<Rightarrow>
              if MIN_SIZE_MB \<le> totalSize then Some (keyType, count, totalSize) else None
          | _ \<Rightarrow> None)
       (entriesByType st)"

definition samples_or_empty :: "(string \<times> string list) list \<Rightarrow> string \<Rightarrow> string list" where
  \<comment> \<open>\<open>stats.sampleKeys[keyType] || []\<close>. When the loop has run to its end every own name
      of \<open>entriesByType\<close> is an own name of \<open>sampleKeys\<close>, so only the first case is met.\<close>
  "samples_or_empty samples keyType =
     (case read_property samples keyType of Own ks \<Rightarrow> ks | _ \<Rightarrow> [])"

definition filter_types :: "GlobalDatabaseStats \<Rightarrow> GlobalDatabaseStats" where
  \<comment> \<open>Lines 85 to 103: three fresh tables receive the kept names, in enumeration order.\<close>
  "filter_types st =
     st\<lparr>entriesByType := map (\<lambda>(keyType, count, totalSize). (keyType, count)) (kept_types st),
        entriesSizeByType :=
          map (\<lambda>(keyType, count, totalSize). (keyType, Num totalSize)) (kept_types st),
        sampleKeys :=
          map (\<lambda>(keyType, count, totalSize). (keyType, samples_or_empty (sampleKeys st) keyType))
            (kept_types st)\<rparr>"

definition rank_largest :: "sized_entry list \<Rightarrow> largest_entry list" where
  \<comment> \<open>\<open>.sort((a, b) => b.sizeMB - a.sizeMB).slice(0, 10).map(...)\<close>; the sort is stable.\<close>
  "rank_largest sized =
     map (\<lambda>e. \<lparr>le_key = se_key e, le_sizeMB = se_sizeMB e, le_type = keyType_of (se_key e)\<rparr>)
       (take 10 (sort_key (\<lambda>e. - se_sizeMB e) sized))"

definition analyze_entries :: "storage_row list \<Rightarrow> GlobalDatabaseStats" where
  \<comment> \<open>The rest of the \<open>try\<close> block once \<open>allEntries\<close> is read and the handle closed,
      with the \<open>catch\<close> that keeps \<open>stats\<close> as the throwing pass left it.\<close>
  "analyze_entries allEntries =
     (case scan_entries (initial_stats\<lparr>totalEntries := length allEntries\<rparr>, []) allEntries of
        (Some e, st, sized) \<Rightarrow> st
      | (None, st, sized) \<Rightarrow> (filter_types st)\<lparr>largestEntries := rank_largest sized\<rparr>)"

section \<open>The world outside the handlers\<close>

text \<open>
  \<open>path.join\<close> is a library function. The handlers that only read never compare two
  paths: for them a path is represented by the list of segments \<open>path.join\<close> was
  given, and the world says what is found there. (The pruner, which removes directories,
  resolves its paths; see its section.) \<open>JSON.parse\<close> is the runtime's parser,
  \<open>None\<close> where it throws a SyntaxError. The files are taken not to change during a
  request, except by the request's own removals.
\<close>

type_synonym path = "string list"

datatype json =
  JNull | JBool bool | JNum rat | JStr string | JArr "json list" | JObj "(string \<times> json) list"

datatype table = ItemTable | cursorDiskKV

record db_file =
  opens :: bool \<comment> \<open>\<open>open({filename, driver})\<close> resolves\<close>
  rows_of :: "table \<Rightarrow> storage_row list option" \<comment> \<open>\<open>None\<close>: a statement on the table rejects\<close>
  closes :: bool \<comment> \<open>\<open>db.close()\<close> resolves\<close>

record world =
  WORKSPACE_PATH :: "string option" \<comment> \<open>\<open>process.env.WORKSPACE_PATH\<close>\<close>
  present :: "path \<Rightarrow> bool" \<comment> \<open>\<open>existsSync\<close>\<close>
  database :: "path \<Rightarrow> db_file"
  listing :: "path \<Rightarrow> (string \<times> bool) list option"
    \<comment> \<open>\<open>fs.readdir\<close> with file types: name and \<open>isDirectory()\<close>; \<open>None\<close> when it rejects\<close>
  contents :: "path \<Rightarrow> string option" \<comment> \<open>\<open>fs.readFile\<close>; \<open>None\<close> when it rejects\<close>
  JSON_parse :: "string \<Rightarrow> json option"

text \<open>What a request has done to the database driver: the handles it holds open, and the
  statements it has run (file, table, and the key of a point lookup).\<close>

record io_state =
  open_handles :: "path list"
  statements :: "(path \<times> table \<times> string option) list"

definition idle :: io_state where
  "idle = \<lparr>open_handles = [], statements = []\<rparr>"

definition db_open :: "world \<Rightarrow> path \<Rightarrow> io_state \<Rightarrow> (js_error + path) \<times> io_state" where
  "db_open w p io =
     (if opens (database w p) then (Inr p, io\<lparr>open_handles := p # open_handles io\<rparr>)
      else (Inl (SystemError ''SQLITE_CANTOPEN: unable to open database file''), io))"

definition db_all ::
  "world \<Rightarrow> path \<Rightarrow> table \<Rightarrow> io_state \<Rightarrow> (js_error + storage_row list) \<times> io_state" where
  "db_all w db t io =
     (case rows_of (database w db) t of
        None \<Rightarrow> Inl (SystemError ''SQLITE_ERROR'')
      | Some rows \<Rightarrow> Inr rows,
      io\<lparr>statements := statements io @ [(db, t, None)]\<rparr>)"

definition db_get ::
  "world \<Rightarrow> path \<Rightarrow> table \<Rightarrow> string \<Rightarrow> io_state \<Rightarrow> (js_error + storage_row option) \<times> io_state" where
  \<comment> \<open>\<open>db.get\<close> of \<open>SELECT ... WHERE [key] = k\<close>: the first matching row, or undefined.\<close>
  "db_get w db t k io =
     (case rows_of (database w db) t of
        None \<Rightarrow> Inl (SystemError ''SQLITE_ERROR'')
      | Some rows \<Rightarrow> Inr (find (\<lambda>r. row_key r = k) rows),
      io\<lparr>statements := statements io @ [(db, t, Some k)]\<rparr>)"

definition db_close :: "world \<Rightarrow> path \<Rightarrow> io_state \<Rightarrow> (js_error + unit) \<times> io_state" where
  "db_close w db io =
     (if closes (database w db) then (Inr (), io\<lparr>open_handles := remove1 db (open_handles io)\<rparr>)
      else (Inl (SystemError ''SQLITE_BUSY''), io))"

section \<open>analyzeGlobalDatabase (api/statistics/route.ts)\<close>

definition globalDbPath :: "string \<Rightarrow> path" where
  "globalDbPath workspacePath = [workspacePath, ''..'', ''globalStorage'', ''state.vscdb'']"

definition analyzeGlobalDatabase ::
  "world \<Rightarrow> string \<Rightarrow> io_state \<Rightarrow> GlobalDatabaseStats \<times> io_state" where
  "analyzeGlobalDatabase w workspacePath io =
     (if \<not> present w (globalDbPath workspacePath) then (initial_stats, io)
      else
        case db_open w (globalDbPath workspacePath) io of
          (Inl e, io1) \<Rightarrow> (initial_stats, io1)
        | (Inr db, io1) \<Rightarrow>
            (case db_all w db cursorDiskKV io1 of
               (Inl e, io2) \<Rightarrow> (initial_stats, io2)
             | (Inr allEntries, io2) \<Rightarrow>
                 (case db_close w db io2 of
                    (Inl e, io3) \<Rightarrow> (initial_stats, io3)
                  | (Inr u, io3) \<Rightarrow> (analyze_entries allEntries, io3))))"

section \<open>Workspace scanner (api/statistics/route.ts, GET)\<close>

fun get_member :: "json \<Rightarrow> string \<Rightarrow> js_error + json option" where
  \<comment> \<open>\<open>data.name\<close> for the names the handlers read (\<open>tabs\<close>, \<open>allComposers\<close>,
      \<open>folder\<close>, \<open>workspaceIds\<close>, \<open>length\<close>): none is inherited from a prototype
      except \<open>length\<close> on strings and arrays. \<open>None\<close> is undefined.\<close>
  "get_member JNull name = Inl (TypeError ''Cannot read properties of null'')"
| "get_member (JObj ps) name = Inr (map_of ps name)"
| "get_member (JStr s) name =
     Inr (if name = ''length'' then Some (JNum (of_nat (utf16_length s))) else None)"
| "get_member (JArr xs) name =
     Inr (if name = ''length'' then Some (JNum (of_nat (length xs))) else None)"
| "get_member (JBool b) name = Inr None"
| "get_member (JNum n) name = Inr None"

fun truthy :: "json \<Rightarrow> bool" where
  "truthy JNull = False"
| "truthy (JBool b) = b"
| "truthy (JNum n) = (n \<noteq> 0)"
| "truthy (JStr s) = (s \<noteq> [])"
| "truthy (JArr xs) = True"
| "truthy (JObj ps) = True"

definition length_or_0 :: "json option \<Rightarrow> json" where
  \<comment> \<open>\<open>x?.length || 0\<close>\<close>
  "length_or_0 x =
     (case x of
        None \<Rightarrow> JNum 0
      | Some JNull \<Rightarrow> JNum 0
      | Some v \<Rightarrow>
          (case get_member v ''length'' of
             Inr (Some l) \<Rightarrow> if truthy l then l else JNum 0
           | _ \<Rightarrow> JNum 0))"

definition count_and_size :: "world \<Rightarrow> string \<Rightarrow> string \<Rightarrow> json \<times> rat" where
  \<comment> \<open>The \<open>try\<close> block entered when a row's value is truthy: count and size keep their
      initial 0 when \<open>JSON.parse\<close> or the member read throws.\<close>
  "count_and_size w field raw =
     (case JSON_parse w raw of
        None \<Rightarrow> (JNum 0, 0)
      | Some data \<Rightarrow>
          (case get_member data field of
             Inl e \<Rightarrow> (JNum 0, 0)
           | Inr member \<Rightarrow> (length_or_0 member, calculateDataSizeMB (Some raw))))"

definition value_of_result :: "storage_row option \<Rightarrow> string option" where
  \<comment> \<open>\<open>result?.value\<close>\<close>
  "value_of_result result = (case result of None \<Rightarrow> None | Some r \<Rightarrow> row_value r)"

definition found_count_and_size :: "world \<Rightarrow> string \<Rightarrow> string option \<Rightarrow> json \<times> rat" where
  "found_count_and_size w field v =
     (case v of
        None \<Rightarrow> (JNum 0, 0)
      | Some raw \<Rightarrow> if raw = [] then (JNum 0, 0) else count_and_size w field raw)"

definition read_folder :: "world \<Rightarrow> path \<Rightarrow> json option" where
  \<comment> \<open>\<open>JSON.parse(await fs.readFile(...)).folder\<close>, undefined when any step throws.\<close>
  "read_folder w p =
     (case contents w p of
        None \<Rightarrow> None
      | Some text \<Rightarrow>
          (case JSON_parse w text of
             None \<Rightarrow> None
           | Some workspaceData \<Rightarrow>
               (case get_member workspaceData ''folder'' of Inl e \<Rightarrow> None | Inr v \<Rightarrow> v)))"

record WorkspaceStats =
  ws_id :: string
  hasChats :: bool
  hasComposers :: bool
  chatCount :: json
  composerCount :: json
  folder :: "json option"
  chatDataSizeMB :: rat
  ws_composerDataSizeMB :: rat
  ws_totalSizeMB :: rat

definition scan_workspace ::
  "world \<Rightarrow> string \<Rightarrow> string \<Rightarrow> io_state \<Rightarrow> WorkspaceStats option \<times> io_state" where
  \<comment> \<open>The inner \<open>try\<close> of the loop for one directory that has a \<open>state.vscdb\<close>;
      \<open>None\<close> when its \<open>catch\<close> is reached, which pushes no record.\<close>
  "scan_workspace w workspacePath name io =
     (let dbPath = [workspacePath, name, ''state.vscdb''];
          workspaceFolder = read_folder w [workspacePath, name, ''workspace.json'']
      in
        case db_open w dbPath io of
          (Inl e, io1) \<Rightarrow> (None, io1)
        | (Inr db, io1) \<Rightarrow>
            (case db_get w db ItemTable ''workbench.panel.aichat.view.aichat.chatdata'' io1 of
               (Inl e, io2) \<Rightarrow> (None, io2)
             | (Inr chatResult, io2) \<Rightarrow>
                 (let chat = found_count_and_size w ''tabs'' (value_of_result chatResult)
                  in
                    case db_get w db ItemTable ''composer.composerData'' io2 of
                      (Inl e, io3) \<Rightarrow> (None, io3)
                    | (Inr composerResult, io3) \<Rightarrow>
                        (let composer = found_count_and_size w ''allComposers''
                                          (value_of_result composerResult)
                         in
                           case db_close w db io3 of
                             (Inl e, io4) \<Rightarrow> (None, io4)
                           | (Inr u, io4) \<Rightarrow>
                               (Some
                                  \<lparr>ws_id = name,
                                   hasChats = truthy_value (value_of_result chatResult),
                                   hasComposers = truthy_value (value_of_result composerResult),
                                   chatCount = fst chat,
                                   composerCount = fst composer,
                                   folder = workspaceFolder,
                                   chatDataSizeMB = snd chat,
                                   ws_composerDataSizeMB = snd composer,
                                   ws_totalSizeMB = snd chat + snd composer\<rparr>,
                                io4)))))"

fun scan_workspaces ::
  "world \<Rightarrow> string \<Rightarrow> (string \<times> bool) list \<Rightarrow> WorkspaceStats list \<Rightarrow> io_state \<Rightarrow>
   WorkspaceStats list \<times> io_state" where
  "scan_workspaces w workspacePath [] workspaceDetails io = (workspaceDetails, io)"
| "scan_workspaces w workspacePath ((name, isDirectory) # entries) workspaceDetails io =
     (if isDirectory \<and> present w [workspacePath, name, ''state.vscdb'']
      then
        (case scan_workspace w workspacePath name io of
           (None, io') \<Rightarrow> scan_workspaces w workspacePath entries workspaceDetails io'
         | (Some r, io') \<Rightarrow> scan_workspaces w workspacePath entries (workspaceDetails @ [r]) io')
      else scan_workspaces w workspacePath entries workspaceDetails io)"

datatype 'b response = Response (status: nat) (body: 'b)

datatype statistics_body =
  StatisticsError string
| Statistics (workspaceDetails: "WorkspaceStats list") (globalDatabase: GlobalDatabaseStats)

definition GET_statistics :: "world \<Rightarrow> io_state \<Rightarrow> statistics_body response \<times> io_state" where
  \<comment> \<open>The totals the handler derives from \<open>workspaceDetails\<close> by counting and summing
      are left out of the body.\<close>
  "GET_statistics w io =
     (case WORKSPACE_PATH w of
        None \<Rightarrow> (Response 400 (StatisticsError ''Workspace path not configured''), io)
      | Some workspacePath \<Rightarrow>
          if workspacePath = []
          then (Response 400 (StatisticsError ''Workspace path not configured''), io)
          else
            (case listing w [workspacePath] of
               None \<Rightarrow> (Response 500 (StatisticsError ''Failed to get statistics''), io)
             | Some entries \<Rightarrow>
                 (case scan_workspaces w workspacePath entries [] io of
                    (details, io1) \<Rightarrow>
                      (case analyzeGlobalDatabase w workspacePath io1 of
                         (stats, io2) \<Rightarrow> (Response 200 (Statistics details stats), io2)))))"

section \<open>Single-entry lookup (api/database-entry/route.ts, GET)\<close>

definition Buffer_byteLength :: "string option \<Rightarrow> js_error + nat" where
  \<comment> \<open>\<open>Buffer.byteLength(value, 'utf8')\<close> on a column value: null is refused.\<close>
  "Buffer_byteLength v =
     (case v of
        None \<Rightarrow> Inl (TypeError ''The string argument must be of type string. Received null'')
      | Some s \<Rightarrow> Inr (byteLength s))"

datatype parsed_value = Parsed json | Unparsed string

definition parse_or_raw :: "world \<Rightarrow> string option \<Rightarrow> parsed_value" where
  \<comment> \<open>\<open>try { JSON.parse(value) } catch { value }\<close>; \<open>JSON.parse(null)\<close> is null.\<close>
  "parse_or_raw w v =
     (case v of
        None \<Rightarrow> Parsed JNull
      | Some s \<Rightarrow> (case JSON_parse w s of None \<Rightarrow> Unparsed s | Some j \<Rightarrow> Parsed j))"

record database_entry =
  entry_key :: string
  rawValue :: "string option"
  parsedValue :: parsed_value
  entry_source :: "string option"
  entry_size :: nat
  sizeFormatted :: nat \<comment> \<open>the hundredths of a megabyte that \<open>toFixed(2)\<close> prints\<close>

datatype entry_body = EntryError string | Entry database_entry

definition entry_location :: "string \<Rightarrow> string option \<Rightarrow> path \<times> table" where
  \<comment> \<open>Lines 25 to 39: \<open>dbPath\<close> and \<open>tableName\<close>.\<close>
  "entry_location workspacePath source =
     (if source = Some ''global''
      then ([workspacePath, ''..'', ''globalStorage'', ''state.vscdb''], cursorDiskKV)
      else ([workspacePath, (case source of None \<Rightarrow> [] | Some s \<Rightarrow> s), ''state.vscdb''],
            ItemTable))"

definition GET_entry ::
  "world \<Rightarrow> string option \<Rightarrow> string option \<Rightarrow> io_state \<Rightarrow> entry_body response \<times> io_state" where
  \<comment> \<open>\<open>key\<close> and \<open>source\<close> are the two search parameters, \<open>None\<close> when absent.\<close>
  "GET_entry w key source io =
     (case key of
        None \<Rightarrow> (Response 400 (EntryError ''Key parameter is required''), io)
      | Some k \<Rightarrow>
          if k = [] then (Response 400 (EntryError ''Key parameter is required''), io)
          else
            (case WORKSPACE_PATH w of
               None \<Rightarrow> (Response 400 (EntryError ''Workspace path not configured''), io)
             | Some workspacePath \<Rightarrow>
                 if workspacePath = []
                 then (Response 400 (EntryError ''Workspace path not configured''), io)
                 else
                   (case entry_location workspacePath source of
                      (dbPath, tableName) \<Rightarrow>
                        if \<not> present w dbPath
                        then (Response 404 (EntryError ''Database not found''), io)
                        else
                          (case db_open w dbPath io of
                             (Inl e, io1) \<Rightarrow>
                               (Response 500 (EntryError ''Failed to get database entry''), io1)
                           | (Inr db, io1) \<Rightarrow>
                               (case db_get w db tableName k io1 of
                                  (Inl e, io2) \<Rightarrow>
                                    (Response 500 (EntryError ''Failed to get database entry''), io2)
                                | (Inr result, io2) \<Rightarrow>
                                    (case db_close w db io2 of
                                       (Inl e, io3) \<Rightarrow>
                                         (Response 500
                                            (EntryError ''Failed to get database entry''), io3)
                                     | (Inr u, io3) \<Rightarrow>
                                         (case result of
                                            None \<Rightarrow>
                                              (Response 404 (EntryError ''Entry not found''), io3)
                                          | Some row \<Rightarrow>
                                              (case Buffer_byteLength (row_value row) of
                                                 Inl e \<Rightarrow>
                                                   (Response 500
                                                      (EntryError ''Failed to get database entry''),
                                                    io3)
                                               | Inr n \<Rightarrow>
                                                   (Response 200
                                                      (Entry
                                                         \<lparr>entry_key = row_key row,
                                                          rawValue = row_value row,
                                                          parsedValue =
                                                            parse_or_raw w (row_value row),
                                                          entry_source = source,
                                                          entry_size = n,
                                                          sizeFormatted =
                                                            nat \<lfloor>100 * (of_nat n / (1024 * 1024)
                                                                           :: rat) + 1 / 2\<rfloor>\<rparr>),
                                                    io3)))))))))"

section \<open>Workspace pruner (api/remove-empty-workspaces/route.ts, DELETE)\<close>

text \<open>
  Two identifiers can name the same directory, or one inside the other, so the pruner's
  paths are resolved. A location is the list of names, from the root, of the entry that
  the text returned by \<open>path.join(workspacePath, workspaceId)\<close> designates under POSIX
  rules: the non-empty arguments are joined by \<open>/\<close>; a text that does not start with
  \<open>/\<close> starts from the working directory; empty segments and \<open>.\<close> are dropped, and
  \<open>..\<close> leaves the directory it is in and stays at the root. \<open>path.join\<close> keeps a
  final \<open>/\<close>, which makes the operating system refuse anything but a directory.
  Symbolic links are not modelled, and names are compared as written. Whether a removal
  is rejected, and what a rejected removal has taken away, depends on the location only.
\<close>

fun split_slash :: "string \<Rightarrow> string list" where
  \<comment> \<open>The segments between the separators.\<close>
  "split_slash [] = [[]]"
| "split_slash (c # cs) =
     (if c = CHR ''/'' then [] # split_slash cs
      else (case split_slash cs of [] \<Rightarrow> [[c]] | s # ss \<Rightarrow> (c # s) # ss))"

definition enter :: "string list \<Rightarrow> string \<Rightarrow> string list" where
  "enter dir seg =
     (if seg = [] \<or> seg = ''.'' then dir
      else if seg = ''..'' then butlast dir
      else dir @ [seg])"

definition joined :: "string \<Rightarrow> string \<Rightarrow> string" where
  \<comment> \<open>The first step of \<open>path.join\<close>: an empty argument is skipped.\<close>
  "joined workspacePath workspaceId =
     (if workspaceId = [] then workspacePath
      else if workspacePath = [] then workspaceId
      else workspacePath @ ''/'' @ workspaceId)"

datatype kind = File | Directory

record file_tree =
  cwd :: "string list" \<comment> \<open>the location of the working directory\<close>
  entry :: "string list \<Rightarrow> kind option" \<comment> \<open>what is at a location, if anything\<close>
  rm_fails :: "string list \<Rightarrow> string option"
    \<comment> \<open>the message \<open>fs.rm\<close> rejects with at a location, if it does\<close>
  lost :: "string list \<Rightarrow> string list \<Rightarrow> bool"
    \<comment> \<open>what a rejected removal at the first location has removed all the same\<close>

definition locate :: "file_tree \<Rightarrow> string \<Rightarrow> string \<Rightarrow> string list \<times> bool" where
  \<comment> \<open>The location \<open>workspaceDir\<close> designates, and whether its text ends in \<open>/\<close>.\<close>
  "locate t workspacePath workspaceId =
     (foldl enter (if prefix ''/'' (joined workspacePath workspaceId) then [] else cwd t)
        (split_slash (joined workspacePath workspaceId)),
      suffix ''/'' (joined workspacePath workspaceId))"

definition accessible :: "file_tree \<Rightarrow> string list \<times> bool \<Rightarrow> bool" where
  \<comment> \<open>\<open>fs.access(workspaceDir)\<close> resolves.\<close>
  "accessible t d =
     (case entry t (fst d) of
        None \<Rightarrow> False
      | Some Directory \<Rightarrow> True
      | Some File \<Rightarrow> \<not> snd d)"

definition rm :: "file_tree \<Rightarrow> string list \<Rightarrow> js_error option \<times> file_tree" where
  \<comment> \<open>\<open>fs.rm(workspaceDir, {recursive: true, force: true})\<close>: the entry and all below it
      are gone; or the call rejects, the entry stays and some of what is below it may be
      gone. The tree is returned as the call left it.\<close>
  "rm t dir =
     (case rm_fails t dir of
        None \<Rightarrow> (None, t\<lparr>entry := (\<lambda>q. if prefix dir q then None else entry t q)\<rparr>)
      | Some m \<Rightarrow>
          (Some (SystemError m),
           t\<lparr>entry := (\<lambda>q. if strict_prefix dir q \<and> lost t dir q then None else entry t q)\<rparr>))"

record removal =
  removedWorkspaces :: "string list"
  errors :: "(json \<times> string) list"

fun remove_each :: "string \<Rightarrow> json list \<Rightarrow> removal \<Rightarrow> file_tree \<Rightarrow> removal \<times> file_tree" where
  "remove_each workspacePath [] acc t = (acc, t)"
| "remove_each workspacePath (workspaceId # workspaceIds) acc t =
     (case workspaceId of
        JStr name \<Rightarrow>
          if \<not> accessible t (locate t workspacePath name)
          then remove_each workspacePath workspaceIds
                 (acc\<lparr>errors := errors acc @ [(workspaceId, ''Workspace directory not found'')]\<rparr>) t
          else
            (case rm t (fst (locate t workspacePath name)) of
               (Some e, t') \<Rightarrow>
                 remove_each workspacePath workspaceIds
                   (acc\<lparr>errors := errors acc @ [(workspaceId, message e)]\<rparr>) t'
             | (None, t') \<Rightarrow>
                 remove_each workspacePath workspaceIds
                   (acc\<lparr>removedWorkspaces := removedWorkspaces acc @ [name]\<rparr>) t')
      | _ \<Rightarrow>
          remove_each workspacePath workspaceIds
            (acc\<lparr>errors := errors acc
               @ [(workspaceId, ''The path argument must be of type string'')]\<rparr>) t)"

datatype prune_body =
  PruneError string
| Pruned (success: bool) (removed: "string list") (removedCount: nat)
    (failed: "(json \<times> string) list")

definition DELETE_workspaces ::
  "world \<Rightarrow> file_tree \<Rightarrow> js_error + json \<Rightarrow> prune_body response \<times> file_tree" where
  \<comment> \<open>The request body is what \<open>request.json()\<close> gives: an error when it rejects. The
      \<open>message\<close> field of the answer repeats \<open>removedCount\<close> and is left out.\<close>
  "DELETE_workspaces w t request_json =
     (case WORKSPACE_PATH w of
        None \<Rightarrow> (Response 400 (PruneError ''Workspace path not configured''), t)
      | Some workspacePath \<Rightarrow>
          if workspacePath = []
          then (Response 400 (PruneError ''Workspace path not configured''), t)
          else
            (case request_json of
               Inl e \<Rightarrow>
                 (Response 500 (PruneError (''Failed to remove workspaces: '' @ message e)), t)
             | Inr b \<Rightarrow>
                 (case get_member b ''workspaceIds'' of
                    Inl e \<Rightarrow>
                      (Response 500 (PruneError (''Failed to remove workspaces: '' @ message e)), t)
                  | Inr (Some (JArr workspaceIds)) \<Rightarrow>
                      (case remove_each workspacePath workspaceIds
                              \<lparr>removedWorkspaces = [], errors = []\<rparr> t of
                         (r, t') \<Rightarrow>
                           (Response 200
                              (Pruned True (removedWorkspaces r) (length (removedWorkspaces r))
                                 (errors r)),
                            t'))
                  | Inr _ \<Rightarrow>
                      (Response 400
                         (PruneError ''Invalid request. Expected workspaceIds array.''), t))))"

section \<open>Notions used to state the properties of the analyzer\<close>

definition global_table :: "world \<Rightarrow> string \<Rightarrow> storage_row list option" where
  \<comment> \<open>The rows the analyzer reads: the global table, when its file is there and the
      driver opens, reads and closes it.\<close>
  "global_table w workspacePath =
     (if present w (globalDbPath workspacePath) \<and> opens (database w (globalDbPath workspacePath))
         \<and> closes (database w (globalDbPath workspacePath))
      then rows_of (database w (globalDbPath workspacePath)) cursorDiskKV
      else None)"

definition measured :: "storage_row \<Rightarrow> bool" where
  \<comment> \<open>The rows the loop does not skip.\<close>
  "measured r = truthy_value (row_value r)"

definition is_composer :: "storage_row \<Rightarrow> bool" where
  "is_composer r = startsWith (row_key r) ''composerData:''"

definition bucketed :: "storage_row \<Rightarrow> bool" where
  \<comment> \<open>The rows that reach the \<open>else\<close> branch and are counted under their type.\<close>
  "bucketed r = (measured r \<and> \<not> is_composer r)"

definition plain_types :: "storage_row list \<Rightarrow> bool" where
  \<comment> \<open>No row counted under its type has a type that names a function of
      \<open>Object.prototype\<close>.\<close>
  "plain_types rows =
     list_all (\<lambda>r. map_of inherited_functions (keyType_of (row_key r)) = None)
       (filter bucketed rows)"

definition size_of :: "storage_row \<Rightarrow> rat" where
  "size_of r = calculateDataSizeMB (row_value r)"

definition sized_of :: "storage_row \<Rightarrow> sized_entry" where
  "sized_of r =
     \<lparr>se_key = row_key r, se_sizeMB = size_of r,
      se_value = (case row_value r of None \<Rightarrow> [] | Some v \<Rightarrow> v)\<rparr>"

definition largest_of :: "storage_row \<Rightarrow> largest_entry" where
  "largest_of r = \<lparr>le_key = row_key r, le_sizeMB = size_of r, le_type = keyType_of (row_key r)\<rparr>"

definition counted ::
  "GlobalDatabaseStats \<Rightarrow> GlobalDatabaseStats \<Rightarrow> storage_row list \<Rightarrow> bool" where
  \<comment> \<open>What passes of the loop over \<open>rows\<close> add to the counters and sums.\<close>
  "counted st st' rows =
     (totalEntries st' = totalEntries st \<and>
      composerEntries st' =
        composerEntries st + length (filter (\<lambda>r. measured r \<and> is_composer r) rows) \<and>
      otherEntries st' = otherEntries st + length (filter bucketed rows) \<and>
      totalSizeMB st' = totalSizeMB st + sum_list (map size_of (filter measured rows)) \<and>
      composerDataSizeMB st' =
        composerDataSizeMB st
        + sum_list (map size_of (filter (\<lambda>r. measured r \<and> is_composer r) rows)) \<and>
      otherDataSizeMB st' = otherDataSizeMB st + sum_list (map size_of (filter bucketed rows)) \<and>
      largestEntries st' = largestEntries st)"

text \<open>The ranking as the specification words it: the rows with a non-null value that are
  not composer data, by descending byte size, the first ten.\<close>

definition claimed_candidates :: "storage_row list \<Rightarrow> storage_row list" where
  "claimed_candidates rows =
     filter (\<lambda>r. row_value r \<noteq> None \<and> \<not> prefix ''composerData:'' (row_key r)) rows"

definition claimed_ranking :: "storage_row list \<Rightarrow> storage_row list" where
  "claimed_ranking rows =
     take 10
       (sort_key (\<lambda>r. - int (byteLength (case row_value r of None \<Rightarrow> [] | Some v \<Rightarrow> v)))
          (claimed_candidates rows))"

subsection \<open>Example worlds\<close>

definition global_only :: "storage_row list \<Rightarrow> world" where
  \<comment> \<open>The workspace path is \<open>/ws\<close>; the global database holds the given rows; there
      is no workspace.\<close>
  "global_only rows =
     \<lparr>WORKSPACE_PATH = Some ''/ws'',
      present = (\<lambda>p. p = globalDbPath ''/ws''),
      database = (\<lambda>p. \<lparr>opens = True,
                         rows_of = (\<lambda>t. if t = cursorDiskKV then Some rows else None),
                         closes = True\<rparr>),
      listing = (\<lambda>p. if p = [''/ws''] then Some [] else None),
      contents = (\<lambda>p. None),
      JSON_parse = (\<lambda>s. None)\<rparr>"

definition example_rows :: "storage_row list" where
  "example_rows =
     [\<lparr>row_key = ''a:1'', row_value = Some ''xx''\<rparr>,
      \<lparr>row_key = ''composerData:1'', row_value = Some ''yyy''\<rparr>,
      \<lparr>row_key = ''n'', row_value = None\<rparr>,
      \<lparr>row_key = ''b'', row_value = Some ''zz''\<rparr>]"

definition composer_row :: "storage_row list" where
  "composer_row = [\<lparr>row_key = ''composerData:1'', row_value = Some ''x''\<rparr>]"

definition null_row :: "storage_row list" where
  "null_row = [\<lparr>row_key = ''a'', row_value = None\<rparr>]"

subsection \<open>The per-type tables\<close>

definition rows_of_type :: "string \<Rightarrow> storage_row list \<Rightarrow> storage_row list" where
  \<comment> \<open>The rows counted under a type, in scan order.\<close>
  "rows_of_type t rows = filter (\<lambda>r. bucketed r \<and> keyType_of (row_key r) = t) rows"

text \<open>What the loop has entered in a table once it has passed the rows \<open>seen\<close>: one
  own name for each type met other than \<open>__proto__\<close>, holding \<open>f\<close> of the rows of
  that type.\<close>

definition tab :: "(string \<times> 'v) list \<Rightarrow> (storage_row list \<Rightarrow> 'v) \<Rightarrow> storage_row list \<Rightarrow> bool" where
  "tab al f seen =
     (distinct (map fst al) \<and>
      (\<forall>t. map_of al t =
         (if t \<noteq> ''__proto__'' \<and> rows_of_type t seen \<noteq> [] then Some (f (rows_of_type t seen))
          else None)))"

definition tabulated :: "GlobalDatabaseStats \<Rightarrow> storage_row list \<Rightarrow> bool" where
  "tabulated st seen =
     (tab (entriesByType st) (\<lambda>rs. Num (length rs)) seen \<and>
      tab (entriesSizeByType st) (\<lambda>rs. Num (sum_list (map size_of rs))) seen \<and>
      tab (sampleKeys st) (\<lambda>rs. take 3 (map row_key rs)) seen)"

definition type_total :: "string \<Rightarrow> storage_row list \<Rightarrow> rat" where
  "type_total t rows = sum_list (map size_of (rows_of_type t rows))"

section \<open>Notions used to state the properties of the handlers\<close>

definition workspaceDb :: "string \<Rightarrow> string \<Rightarrow> path" where
  "workspaceDb wp name = [wp, name, ''state.vscdb'']"

definition readable_workspace :: "world \<Rightarrow> string \<Rightarrow> string \<Rightarrow> bool" where
  "readable_workspace w wp name =
     (present w (workspaceDb wp name) \<and> opens (database w (workspaceDb wp name))
      \<and> closes (database w (workspaceDb wp name))
      \<and> rows_of (database w (workspaceDb wp name)) ItemTable \<noteq> None)"

definition stored_value :: "world \<Rightarrow> string \<Rightarrow> string \<Rightarrow> string \<Rightarrow> string option" where
  "stored_value w wp name k =
     (case rows_of (database w (workspaceDb wp name)) ItemTable of
        None \<Rightarrow> None
      | Some rows \<Rightarrow> value_of_result (find (\<lambda>r. row_key r = k) rows))"

definition malformed :: "world \<Rightarrow> string option \<Rightarrow> bool" where
  "malformed w v = (case v of None \<Rightarrow> False | Some raw \<Rightarrow> raw \<noteq> [] \<and> JSON_parse w raw = None)"

definition place :: "file_tree \<Rightarrow> string \<Rightarrow> string \<Rightarrow> string list" where
  "place t wp name = fst (locate t wp name)"


definition shadowed :: "file_tree \<Rightarrow> string \<Rightarrow> string list \<Rightarrow> string \<Rightarrow> bool" where
  \<comment> \<open>Another listed identifier whose directory can be reached names the same
      directory or one that contains it.\<close>
  "shadowed t wp ids name =
     list_ex (\<lambda>other. other \<noteq> name \<and> accessible t (locate t wp other)
                \<and> prefix (place t wp other) (place t wp name)) ids"



subsection \<open>More example worlds\<close>

definition unreadable :: world where
  "unreadable =
     \<lparr>WORKSPACE_PATH = Some ''/ws'',
      present = (\<lambda>p. True),
      database = (\<lambda>p. \<lparr>opens = True, rows_of = (\<lambda>t. None), closes = True\<rparr>),
      listing = (\<lambda>p. if p = [''/ws''] then Some [(''w1'', True)] else None),
      contents = (\<lambda>p. None),
      JSON_parse = (\<lambda>s. None)\<rparr>"

definition broken_chat :: world where
  "broken_chat =
     \<lparr>WORKSPACE_PATH = Some ''/ws'',
      present = (\<lambda>p. p = [''/ws'', ''w1'', ''state.vscdb'']),
      database = (\<lambda>p. \<lparr>opens = True,
                         rows_of = (\<lambda>t. if t = ItemTable
                                         then Some [\<lparr>row_key = ''workbench.panel.aichat.view.aichat.chatdata'',
                                                      row_value = Some ''{''\<rparr>,
                                                    \<lparr>row_key = ''composer.composerData'',
                                                      row_value = Some ''[]''\<rparr>]
                                         else None),
                         closes = True\<rparr>),
      listing = (\<lambda>p. if p = [''/ws''] then Some [(''README'', False), (''w1'', True)] else None),
      contents = (\<lambda>p. None),
      JSON_parse = (\<lambda>s. if s = ''[]'' then Some (JArr []) else None)\<rparr>"

definition configured :: world where
  \<comment> \<open>A world whose only content is the workspace path \<open>/ws\<close>.\<close>
  "configured =
     \<lparr>WORKSPACE_PATH = Some ''/ws'',
      present = (\<lambda>p. False),
      database = (\<lambda>p. \<lparr>opens = False, rows_of = (\<lambda>t. None), closes = True\<rparr>),
      listing = (\<lambda>p. None),
      contents = (\<lambda>p. None),
      JSON_parse = (\<lambda>s. None)\<rparr>"

definition three_workspaces :: file_tree where
  \<comment> \<open>Under \<open>/ws\<close>: the directories \<open>a\<close> (with its database file), \<open>c\<close> and
      \<open>locked\<close>, the last of which cannot be removed.\<close>
  "three_workspaces =
     \<lparr>cwd = [''srv''],
      entry = (\<lambda>q. if q \<in> set [[], [''srv''], [''ws''], [''ws'', ''a''], [''ws'', ''c''],
                                  [''ws'', ''locked'']]
                     then Some Directory
                     else if q = [''ws'', ''a'', ''state.vscdb''] then Some File
                     else None),
      rm_fails = (\<lambda>q. if q = [''ws'', ''locked''] then Some ''EACCES: permission denied''
                        else None),
      lost = (\<lambda>dir q. False)\<rparr>"

definition two_stores :: world where
  \<comment> \<open>The global table and the table of workspace \<open>w1\<close> hold the same key with
      different values.\<close>
  "two_stores =
     \<lparr>WORKSPACE_PATH = Some ''/ws'',
      present = (\<lambda>p. p = [''/ws'', ''..'', ''globalStorage'', ''state.vscdb'']
                        \<or> p = [''/ws'', ''w1'', ''state.vscdb'']),
      database =
        (\<lambda>p. \<lparr>opens = True,
                rows_of =
                  (\<lambda>t. if p = [''/ws'', ''..'', ''globalStorage'', ''state.vscdb''] \<and> t = cursorDiskKV
                        then Some [\<lparr>row_key = ''other'', row_value = Some ''o''\<rparr>,
                                   \<lparr>row_key = ''k'', row_value = Some ''global value''\<rparr>]
                        else if p = [''/ws'', ''w1'', ''state.vscdb''] \<and> t = ItemTable
                        then Some [\<lparr>row_key = ''k'', row_value = Some ''workspace value''\<rparr>]
                        else None),
                closes = True\<rparr>),
      listing = (\<lambda>p. None),
      contents = (\<lambda>p. None),
      JSON_parse = (\<lambda>s. None)\<rparr>"

definition ids_body :: "string list \<Rightarrow> json" where
  "ids_body ids = JObj [(''workspaceIds'', JArr (map JStr ids))]"

definition inherited_rows :: "storage_row list" where
  "inherited_rows =
     [\<lparr>row_key = ''bar:1'', row_value = Some ''w''\<rparr>,
      \<lparr>row_key = ''toString'', row_value = Some ''x''\<rparr>,
      \<lparr>row_key = ''foo:1'', row_value = Some ''y''\<rparr>]"

section \<open>Properties of the key classifier\<close>

lemma exact_keys_have_no_prefix:
  "\<not> prefix ''bubbleId:'' ''workbench.panel.aichat.view.aichat.chatdata''"
  "\<not> prefix ''checkpointId:'' ''workbench.panel.aichat.view.aichat.chatdata''"
  "\<not> prefix ''codeBlockDiff:'' ''workbench.panel.aichat.view.aichat.chatdata''"
  "\<not> prefix ''messageRequestContext:'' ''workbench.panel.aichat.view.aichat.chatdata''"
  "\<not> prefix ''composerData:'' ''workbench.panel.aichat.view.aichat.chatdata''"
  "\<not> prefix ''bubbleId:'' ''composer.composerData''"
  "\<not> prefix ''checkpointId:'' ''composer.composerData''"
  "\<not> prefix ''codeBlockDiff:'' ''composer.composerData''"
  "\<not> prefix ''messageRequestContext:'' ''composer.composerData''"
  "\<not> prefix ''composerData:'' ''composer.composerData''"
  by simp_all

text \<open>
  C4. For every key the classifier returns one category out of the eight, and it is the
  category the specification's rule list (exact matches first, then prefixes, first
  match wins) gives: the source tests the prefixes before the exact matches, which
  makes no difference because neither exact key starts with one of the prefixes.
\<close>

theorem formatDataType_follows_spec_rules:
  "formatDataType k = classify_spec k \<and> formatDataType k \<in> set categories"
proof
  show "formatDataType k = classify_spec k"
    unfolding formatDataType_def classify_spec_def startsWith_def
    using exact_keys_have_no_prefix by auto
  show "formatDataType k \<in> set categories"
    unfolding formatDataType_def categories_def by simp
qed

section \<open>Properties of the global database analyzer\<close>

lemma collect_sample_plain:
  "map_of inherited_functions t = None \<Longrightarrow> \<exists>s. collect_sample samples t k = Inr s"
  by (auto simp: collect_sample_def read_property_def write_property_def update_conv'
      split: option.splits property.splits)

lemma visit_skip: "\<not> measured r \<Longrightarrow> visit (st, sized) r = (None, st, sized)"
  by (auto simp: visit_def measured_def truthy_value_def split: option.splits)

lemma visit_sized:
  "measured r \<Longrightarrow> snd (snd (visit (st, sized) r)) = sized @ [sized_of r]"
  by (auto simp: visit_def measured_def truthy_value_def sized_of_def size_of_def Let_def
      split: option.splits sum.splits)

lemma visit_plain:
  "\<not> bucketed r \<or> map_of inherited_functions (keyType_of (row_key r)) = None \<Longrightarrow>
   fst (visit (st, sized) r) = None"
  using collect_sample_plain[of "keyType_of (row_key r)"]
  apply (auto simp: visit_def measured_def bucketed_def is_composer_def truthy_value_def Let_def
      split: option.splits sum.splits)
  by (metis Inl_Inr_False)+

lemma counted_refl: "counted st st []"
  by (simp add: counted_def)

lemma counted_step:
  "counted st st1 [r] \<Longrightarrow> counted st1 st2 rows \<Longrightarrow> counted st st2 (r # rows)"
  by (auto simp: counted_def)

lemma visit_counted:
  "counted st (fst (snd (visit (st, sized) r))) [r]"
  by (auto simp: visit_def counted_def measured_def bucketed_def is_composer_def truthy_value_def
        size_of_def Let_def split: option.splits sum.splits)

lemma visit_sized_all:
  "snd (snd (visit (st, sized) r)) = sized @ map sized_of (filter measured [r])"
  by (cases "measured r") (simp_all add: visit_sized visit_skip)

lemma scan_entries_plain:
  "plain_types rows \<Longrightarrow>
   \<exists>st'. scan_entries (st, sized) rows = (None, st', sized @ map sized_of (filter measured rows))
        \<and> counted st st' rows"
proof (induction rows arbitrary: st sized)
  case Nil
  then show ?case by (simp add: counted_refl)
next
  case (Cons r rows)
  from Cons.prems have here: "\<not> bucketed r \<or> map_of inherited_functions (keyType_of (row_key r)) = None"
    and rest: "plain_types rows"
    by (auto simp: plain_types_def split: if_splits)
  obtain e st1 sized1 where v: "visit (st, sized) r = (e, st1, sized1)"
    by (cases "visit (st, sized) r") auto
  from visit_plain[OF here, of st sized] v have e: "e = None" by simp
  from visit_sized_all[of st sized r] v have s1: "sized1 = sized @ map sized_of (filter measured [r])"
    by simp
  from visit_counted[of st sized r] v have c1: "counted st st1 [r]" by simp
  from Cons.IH[OF rest, of st1 sized1] obtain st' where
    scan: "scan_entries (st1, sized1) rows = (None, st', sized1 @ map sized_of (filter measured rows))"
    and c2: "counted st1 st' rows" by blast
  have "scan_entries (st, sized) (r # rows) = (None, st', sized @ map sized_of (filter measured (r # rows)))"
    using v e scan s1 by simp
  with counted_step[OF c1 c2] show ?case by blast
qed

lemma analyzeGlobalDatabase_reads:
  "global_table w workspacePath = Some rows \<Longrightarrow>
   analyzeGlobalDatabase w workspacePath io =
     (analyze_entries rows,
      io\<lparr>statements := statements io @ [(globalDbPath workspacePath, cursorDiskKV, None)]\<rparr>)"
  by (auto simp: global_table_def analyzeGlobalDatabase_def db_open_def db_all_def db_close_def
      split: if_splits)

lemma filter_types_keeps:
  "totalEntries (filter_types st) = totalEntries st"
  "composerEntries (filter_types st) = composerEntries st"
  "otherEntries (filter_types st) = otherEntries st"
  "totalSizeMB (filter_types st) = totalSizeMB st"
  "composerDataSizeMB (filter_types st) = composerDataSizeMB st"
  "otherDataSizeMB (filter_types st) = otherDataSizeMB st"
  by (simp_all add: filter_types_def)

lemma analyze_entries_plain:
  assumes "plain_types rows"
  shows "\<exists>st'. analyze_entries rows =
            (filter_types st')\<lparr>largestEntries := rank_largest (map sized_of (filter measured rows))\<rparr>
          \<and> counted (initial_stats\<lparr>totalEntries := length rows\<rparr>) st' rows"
proof -
  from scan_entries_plain[OF assms, of "initial_stats\<lparr>totalEntries := length rows\<rparr>" "[]"]
  obtain st' where
    "scan_entries (initial_stats\<lparr>totalEntries := length rows\<rparr>, []) rows
       = (None, st', map sized_of (filter measured rows))"
    and "counted (initial_stats\<lparr>totalEntries := length rows\<rparr>) st' rows"
    by auto
  then show ?thesis by (auto simp: analyze_entries_def)
qed

lemma insort_key_map:
  "insort_key f (g x) (map g ys) = map g (insort_key (\<lambda>y. f (g y)) x ys)"
  by (induction ys) simp_all

lemma sort_key_map:
  "sort_key f (map g xs) = map g (sort_key (\<lambda>y. f (g y)) xs)"
  by (induction xs) (simp_all add: insort_key_map)

lemma rank_largest_rows:
  "rank_largest (map sized_of xs) = map largest_of (take 10 (sort_key (\<lambda>r. - size_of r) xs))"
  by (simp add: rank_largest_def sort_key_map take_map sized_of_def largest_of_def comp_def)

lemma global_only_table: "global_table (global_only rows) ''/ws'' = Some rows"
  by (simp add: global_table_def global_only_def)

lemma example_rows_plain: "plain_types example_rows"
  by code_simp

text \<open>
  C1 (as amended). When the global table is read and no counted row has a type naming a
  function of \<open>Object.prototype\<close>, \<open>largestEntries\<close> is the first ten of a stable
  descending arrangement, by size, of all rows whose value is neither null nor empty,
  composer rows included; every entry carries its key, its size and its coarse type.
\<close>

theorem largestEntries_rank_all_measured_rows:
  assumes "global_table w workspacePath = Some rows" and "plain_types rows"
  shows "\<exists>ranked.
           mset ranked = mset (filter measured rows) \<and>
           sorted_wrt (\<lambda>a b. size_of b \<le> size_of a) ranked \<and>
           (\<forall>s. filter (\<lambda>r. size_of r = s) ranked = filter (\<lambda>r. size_of r = s) (filter measured rows)) \<and>
           largestEntries (fst (analyzeGlobalDatabase w workspacePath io))
             = map largest_of (take 10 ranked) \<and>
           sorted_wrt (\<lambda>a b. le_sizeMB b \<le> le_sizeMB a)
             (largestEntries (fst (analyzeGlobalDatabase w workspacePath io))) \<and>
           length (largestEntries (fst (analyzeGlobalDatabase w workspacePath io))) \<le> 10"
proof -
  let ?cands = "filter measured rows"
  let ?ranked = "sort_key (\<lambda>r. - size_of r) ?cands"
  have perm: "mset ?ranked = mset ?cands" by simp
  have "sorted (map (\<lambda>r. - size_of r) ?ranked)" by (rule sorted_sort_key)
  then have desc: "sorted_wrt (\<lambda>a b. size_of b \<le> size_of a) ?ranked"
    by (simp add: sorted_map)
  have stable: "filter (\<lambda>r. size_of r = s) ?ranked = filter (\<lambda>r. size_of r = s) ?cands" for s
    using sort_key_stable[of "\<lambda>r. - size_of r" "- s" ?cands] by simp
  from analyze_entries_plain[OF assms(2)] obtain st' where
    "analyze_entries rows = (filter_types st')\<lparr>largestEntries := rank_largest (map sized_of ?cands)\<rparr>"
    by blast
  then have out: "largestEntries (fst (analyzeGlobalDatabase w workspacePath io))
      = map largest_of (take 10 ?ranked)"
    by (simp add: analyzeGlobalDatabase_reads[OF assms(1)] rank_largest_rows)
  have len: "length (largestEntries (fst (analyzeGlobalDatabase w workspacePath io))) \<le> 10"
    unfolding out by simp
  from desc have "sorted_wrt (\<lambda>a b. size_of b \<le> size_of a) (take 10 ?ranked)"
    by (rule sorted_wrt_take)
  then have "sorted_wrt (\<lambda>a b. le_sizeMB b \<le> le_sizeMB a)
      (largestEntries (fst (analyzeGlobalDatabase w workspacePath io)))"
    unfolding out by (simp add: sorted_wrt_map largest_of_def)
  with perm desc stable out len show ?thesis by blast
qed

theorem largestEntries_rank_witness:
  "global_table (global_only example_rows) ''/ws'' = Some example_rows \<and> plain_types example_rows \<and>
   (\<exists>ranked.
      mset ranked = mset (filter measured example_rows) \<and>
      sorted_wrt (\<lambda>a b. size_of b \<le> size_of a) ranked \<and>
      (\<forall>s. filter (\<lambda>r. size_of r = s) ranked = filter (\<lambda>r. size_of r = s) (filter measured example_rows)) \<and>
      largestEntries (fst (analyzeGlobalDatabase (global_only example_rows) ''/ws'' idle))
        = map largest_of (take 10 ranked) \<and>
      length (largestEntries (fst (analyzeGlobalDatabase (global_only example_rows) ''/ws'' idle))) \<le> 10)"
  using largestEntries_rank_all_measured_rows[OF global_only_table example_rows_plain, of idle]
    global_only_table example_rows_plain by blast

text \<open>
  C1 as stated fails: a composer row is a candidate of the ranking.
\<close>

theorem composer_rows_are_ranked_counterexample:
  "map le_key (largestEntries (fst (analyzeGlobalDatabase (global_only composer_row) ''/ws'' idle)))
     \<noteq> map row_key (claimed_ranking composer_row)"
  by code_simp

text \<open>
  C2 (as amended). When the global table is read and no counted row has a type naming a
  function of \<open>Object.prototype\<close>, \<open>totalEntries\<close> is the number of rows read,
  \<open>otherEntries + composerEntries\<close> is the number of rows whose value is neither null nor
  empty (hence at most \<open>totalEntries\<close>), and the three size sums range over those rows
  only, the total being the sum of the other two.
\<close>

theorem stats_count_measured_rows:
  assumes "global_table w workspacePath = Some rows" and "plain_types rows"
  shows "totalEntries (fst (analyzeGlobalDatabase w workspacePath io)) = length rows \<and>
         composerEntries (fst (analyzeGlobalDatabase w workspacePath io))
           = length (filter (\<lambda>r. measured r \<and> is_composer r) rows) \<and>
         otherEntries (fst (analyzeGlobalDatabase w workspacePath io))
           = length (filter bucketed rows) \<and>
         otherEntries (fst (analyzeGlobalDatabase w workspacePath io))
           + composerEntries (fst (analyzeGlobalDatabase w workspacePath io))
           = length (filter measured rows) \<and>
         otherEntries (fst (analyzeGlobalDatabase w workspacePath io))
           + composerEntries (fst (analyzeGlobalDatabase w workspacePath io))
           \<le> totalEntries (fst (analyzeGlobalDatabase w workspacePath io)) \<and>
         totalSizeMB (fst (analyzeGlobalDatabase w workspacePath io))
           = sum_list (map size_of (filter measured rows)) \<and>
         composerDataSizeMB (fst (analyzeGlobalDatabase w workspacePath io))
           = sum_list (map size_of (filter (\<lambda>r. measured r \<and> is_composer r) rows)) \<and>
         otherDataSizeMB (fst (analyzeGlobalDatabase w workspacePath io))
           = sum_list (map size_of (filter bucketed rows)) \<and>
         totalSizeMB (fst (analyzeGlobalDatabase w workspacePath io))
           = composerDataSizeMB (fst (analyzeGlobalDatabase w workspacePath io))
             + otherDataSizeMB (fst (analyzeGlobalDatabase w workspacePath io))"
proof -
  from analyze_entries_plain[OF assms(2)] obtain st' where
    eq: "analyze_entries rows
          = (filter_types st')\<lparr>largestEntries := rank_largest (map sized_of (filter measured rows))\<rparr>"
    and c: "counted (initial_stats\<lparr>totalEntries := length rows\<rparr>) st' rows"
    by blast
  have split_len: "length (filter bucketed rows) + length (filter (\<lambda>r. measured r \<and> is_composer r) rows)
      = length (filter measured rows)"
    by (induction rows) (auto simp: bucketed_def)
  have split_sum: "sum_list (map size_of (filter (\<lambda>r. measured r \<and> is_composer r) rows))
      + sum_list (map size_of (filter bucketed rows)) = sum_list (map size_of (filter measured rows))"
    by (induction rows) (auto simp: bucketed_def)
  have bound: "length (filter measured rows) \<le> length rows" by simp
  show ?thesis
    using c split_len split_sum bound
    by (simp add: analyzeGlobalDatabase_reads[OF assms(1)] eq filter_types_keeps counted_def
        initial_stats_def)
qed

theorem stats_count_witness:
  "global_table (global_only example_rows) ''/ws'' = Some example_rows \<and> plain_types example_rows \<and>
   totalEntries (fst (analyzeGlobalDatabase (global_only example_rows) ''/ws'' idle))
     = length example_rows \<and>
   otherEntries (fst (analyzeGlobalDatabase (global_only example_rows) ''/ws'' idle))
     + composerEntries (fst (analyzeGlobalDatabase (global_only example_rows) ''/ws'' idle))
     = length (filter measured example_rows) \<and>
   totalSizeMB (fst (analyzeGlobalDatabase (global_only example_rows) ''/ws'' idle))
     = sum_list (map size_of (filter measured example_rows))"
  using stats_count_measured_rows[OF global_only_table example_rows_plain, of idle]
    global_only_table example_rows_plain by blast

text \<open>
  C2 as stated fails: a row with a null value is counted in \<open>totalEntries\<close> and in
  neither of the other two counters.
\<close>

theorem null_rows_counted_in_total_counterexample:
  "otherEntries (fst (analyzeGlobalDatabase (global_only null_row) ''/ws'' idle))
     + composerEntries (fst (analyzeGlobalDatabase (global_only null_row) ''/ws'' idle))
   \<noteq> totalEntries (fst (analyzeGlobalDatabase (global_only null_row) ''/ws'' idle))"
  by code_simp

subsection \<open>The per-type tables after the loop\<close>

lemma proto_not_function: "map_of inherited_functions ''__proto__'' = None"
  by (simp add: inherited_functions_def)

lemma read_plain:
  "map_of inherited_functions t = None \<Longrightarrow> t \<noteq> ''__proto__'' \<Longrightarrow>
   read_property obj t = (case map_of obj t of None \<Rightarrow> Absent | Some v \<Rightarrow> Own v)"
  by (simp add: read_property_def split: option.splits)

lemma visit_tables_same:
  assumes "\<not> bucketed r \<or> keyType_of (row_key r) = ''__proto__''"
  shows "entriesByType (fst (snd (visit (st, sized) r))) = entriesByType st"
    and "entriesSizeByType (fst (snd (visit (st, sized) r))) = entriesSizeByType st"
    and "sampleKeys (fst (snd (visit (st, sized) r))) = sampleKeys st"
  using assms
  by (auto simp: visit_def bucketed_def measured_def is_composer_def truthy_value_def Let_def
      write_property_def collect_sample_def read_property_def proto_not_function
      split: option.splits sum.splits property.splits)

lemma visit_tables_plain:
  assumes "bucketed r" and "keyType_of (row_key r) = t"
    and "map_of inherited_functions t = None" and "t \<noteq> ''__proto__''"
  shows "entriesByType (fst (snd (visit (st, sized) r)))
           = AList.update t
               (case map_of (entriesByType st) t of
                  None \<Rightarrow> Num 1 | Some (Num n) \<Rightarrow> Num (n + 1) | Some (Text f ns) \<Rightarrow> Text f (ns @ [1]))
               (entriesByType st)"
    and "entriesSizeByType (fst (snd (visit (st, sized) r)))
           = AList.update t
               (case map_of (entriesSizeByType st) t of
                  None \<Rightarrow> Num (size_of r) | Some (Num n) \<Rightarrow> Num (n + size_of r)
                | Some (Text f ns) \<Rightarrow> Text f (ns @ [size_of r]))
               (entriesSizeByType st)"
    and "sampleKeys (fst (snd (visit (st, sized) r)))
           = (case map_of (sampleKeys st) t of
                None \<Rightarrow> AList.update t [row_key r] (sampleKeys st)
              | Some ks \<Rightarrow>
                  if length ks < 3 then AList.update t (ks @ [row_key r]) (sampleKeys st)
                  else sampleKeys st)"
proof -
  from assms(1) obtain v where v: "row_value r = Some v" "v \<noteq> []"
    and nc: "\<not> startsWith (row_key r) ''composerData:''"
    by (auto simp: bucketed_def measured_def is_composer_def truthy_value_def split: option.splits)
  have rd: "read_property obj t = (case map_of obj t of None \<Rightarrow> Absent | Some x \<Rightarrow> Own x)" for obj :: "(string \<times> 'x) list"
    by (rule read_plain[OF assms(3,4)])
  have cs: "collect_sample samples t k =
      Inr (case map_of samples t of
             None \<Rightarrow> AList.update t [k] samples
           | Some ks \<Rightarrow> if length ks < 3 then AList.update t (ks @ [k]) samples else samples)"
    for samples k
    using assms(4)
    by (auto simp: collect_sample_def rd write_property_def update_conv' split: option.splits)
  show "entriesByType (fst (snd (visit (st, sized) r)))
           = AList.update t
               (case map_of (entriesByType st) t of
                  None \<Rightarrow> Num 1 | Some (Num n) \<Rightarrow> Num (n + 1) | Some (Text f ns) \<Rightarrow> Text f (ns @ [1]))
               (entriesByType st)"
    using v nc assms(2,4)
    by (auto simp: visit_def Let_def rd cs write_property_def or_zero_plus_def
        split: option.splits cell.splits)
  show "entriesSizeByType (fst (snd (visit (st, sized) r)))
           = AList.update t
               (case map_of (entriesSizeByType st) t of
                  None \<Rightarrow> Num (size_of r) | Some (Num n) \<Rightarrow> Num (n + size_of r)
                | Some (Text f ns) \<Rightarrow> Text f (ns @ [size_of r]))
               (entriesSizeByType st)"
    using v nc assms(2,4)
    by (auto simp: visit_def Let_def rd cs write_property_def or_zero_plus_def size_of_def
        split: option.splits cell.splits)
  show "sampleKeys (fst (snd (visit (st, sized) r)))
           = (case map_of (sampleKeys st) t of
                None \<Rightarrow> AList.update t [row_key r] (sampleKeys st)
              | Some ks \<Rightarrow>
                  if length ks < 3 then AList.update t (ks @ [row_key r]) (sampleKeys st)
                  else sampleKeys st)"
    using v nc assms(2,4)
    by (auto simp: visit_def Let_def rd cs split: option.splits)
qed


lemma rows_of_type_snoc:
  "rows_of_type t (seen @ [r])
     = (if bucketed r \<and> keyType_of (row_key r) = t then rows_of_type t seen @ [r]
        else rows_of_type t seen)"
  by (simp add: rows_of_type_def)

lemma tab_same:
  assumes "tab al f seen" and "\<not> bucketed r \<or> keyType_of (row_key r) = ''__proto__''"
  shows "tab al f (seen @ [r])"
  using assms unfolding tab_def rows_of_type_snoc by auto

lemma tab_update:
  assumes "tab al f seen" and "bucketed r" and "keyType_of (row_key r) = t" and "t \<noteq> ''__proto__''"
    and "v = f (rows_of_type t seen @ [r])"
  shows "tab (AList.update t v al) f (seen @ [r])"
  using assms unfolding tab_def rows_of_type_snoc
  by (auto simp: distinct_update update_conv')

lemma take3_snoc:
  "take 3 (xs @ [k]) = (if length (take 3 xs) < 3 then take 3 xs @ [k] else take 3 xs)"
  by (cases "length xs < 3") auto

lemma visit_tabulated:
  assumes "tabulated st seen"
    and "\<not> bucketed r \<or> map_of inherited_functions (keyType_of (row_key r)) = None"
  shows "tabulated (fst (snd (visit (st, sized) r))) (seen @ [r])"
proof (cases "\<not> bucketed r \<or> keyType_of (row_key r) = ''__proto__''")
  case True
  with assms(1) show ?thesis
    unfolding tabulated_def visit_tables_same[OF True] by (simp add: tab_same)
next
  case False
  define t where "t = keyType_of (row_key r)"
  from False assms(2) have b: "bucketed r" and kt: "keyType_of (row_key r) = t"
    and plain: "map_of inherited_functions t = None" and np: "t \<noteq> ''__proto__''"
    by (auto simp: t_def)
  from assms(1) have c: "tab (entriesByType st) (\<lambda>rs. Num (length rs)) seen"
    and s: "tab (entriesSizeByType st) (\<lambda>rs. Num (sum_list (map size_of rs))) seen"
    and k: "tab (sampleKeys st) (\<lambda>rs. take 3 (map row_key rs)) seen"
    by (simp_all add: tabulated_def)
  have c': "tab (entriesByType (fst (snd (visit (st, sized) r)))) (\<lambda>rs. Num (length rs)) (seen @ [r])"
    unfolding visit_tables_plain(1)[OF b kt plain np]
    by (rule tab_update[OF c b kt np]) (use c np in \<open>auto simp: tab_def\<close>)
  have s': "tab (entriesSizeByType (fst (snd (visit (st, sized) r))))
      (\<lambda>rs. Num (sum_list (map size_of rs))) (seen @ [r])"
    unfolding visit_tables_plain(2)[OF b kt plain np]
    by (rule tab_update[OF s b kt np]) (use s np in \<open>auto simp: tab_def\<close>)
  have k': "tab (sampleKeys (fst (snd (visit (st, sized) r))))
      (\<lambda>rs. take 3 (map row_key rs)) (seen @ [r])"
  proof (cases "map_of (sampleKeys st) t")
    case None
    with k np have e: "rows_of_type t seen = []" by (auto simp: tab_def split: if_splits)
    have "tab (AList.update t [row_key r] (sampleKeys st))
        (\<lambda>rs. take 3 (map row_key rs)) (seen @ [r])"
      by (rule tab_update[OF k b kt np]) (simp add: e)
    with None show ?thesis
      unfolding visit_tables_plain(3)[OF b kt plain np] by simp
  next
    case (Some ks)
    with k np have ks: "ks = take 3 (map row_key (rows_of_type t seen))"
      by (auto simp: tab_def split: if_splits)
    show ?thesis
    proof (cases "length ks < 3")
      case True
      have "ks @ [row_key r] = take 3 (map row_key (rows_of_type t seen) @ [row_key r])"
        using True unfolding ks take3_snoc by simp
      then have "tab (AList.update t (ks @ [row_key r]) (sampleKeys st))
          (\<lambda>rs. take 3 (map row_key rs)) (seen @ [r])"
        by (intro tab_update[OF k b kt np]) simp
      with Some True show ?thesis
        unfolding visit_tables_plain(3)[OF b kt plain np] by simp
    next
      case False
      have "ks = take 3 (map row_key (rows_of_type t seen) @ [row_key r])"
        using False unfolding take3_snoc ks[symmetric] by simp
      then have "tab (AList.update t ks (sampleKeys st))
          (\<lambda>rs. take 3 (map row_key rs)) (seen @ [r])"
        by (intro tab_update[OF k b kt np]) simp
      moreover have "AList.update t ks (sampleKeys st) = sampleKeys st"
        using Some by (simp add: update_triv)
      ultimately show ?thesis
        unfolding visit_tables_plain(3)[OF b kt plain np] using Some False by simp
    qed
  qed
  from c' s' k' show ?thesis by (simp add: tabulated_def)
qed


lemma scan_entries_tabulated:
  "tabulated st seen \<Longrightarrow> plain_types rows \<Longrightarrow>
   tabulated (fst (snd (scan_entries (st, sized) rows))) (seen @ rows)"
proof (induction rows arbitrary: st sized seen)
  case Nil
  then show ?case by simp
next
  case (Cons r rows)
  from Cons.prems(2) have here: "\<not> bucketed r \<or> map_of inherited_functions (keyType_of (row_key r)) = None"
    and rest: "plain_types rows"
    by (auto simp: plain_types_def split: if_splits)
  obtain e st1 sized1 where v: "visit (st, sized) r = (e, st1, sized1)"
    by (cases "visit (st, sized) r") auto
  from visit_plain[OF here, of st sized] v have e: "e = None" by simp
  from visit_tabulated[OF Cons.prems(1) here, of sized] v have "tabulated st1 (seen @ [r])" by simp
  from Cons.IH[OF this rest, of sized1] v e show ?case by simp
qed

lemma initial_tabulated: "tabulated (initial_stats\<lparr>totalEntries := n\<rparr>) []"
  by (simp add: tabulated_def tab_def initial_stats_def rows_of_type_def)

lemma tab_member:
  "tab al f rows \<Longrightarrow> (t, v) \<in> set al \<Longrightarrow>
   t \<noteq> ''__proto__'' \<and> rows_of_type t rows \<noteq> [] \<and> v = f (rows_of_type t rows)"
  unfolding tab_def by (metis map_of_eq_Some_iff option.distinct(1) option.inject)

lemma tab_read:
  "tab al f rows \<Longrightarrow> t \<noteq> ''__proto__'' \<Longrightarrow> rows_of_type t rows \<noteq> [] \<Longrightarrow>
   read_property al t = Own (f (rows_of_type t rows))"
  by (simp add: tab_def read_property_def)

lemma in_map_filter:
  "y \<in> set (List.map_filter g xs) \<longleftrightarrow> (\<exists>x \<in> set xs. g x = Some y)"
  by (induction xs) (auto split: option.splits)

lemma kept_types_tabulated:
  assumes "tabulated st rows"
  shows "(t, c, s) \<in> set (kept_types st) \<longleftrightarrow>
         (t, c) \<in> set (entriesByType st) \<and> s = type_total t rows \<and> MIN_SIZE_MB \<le> s"
proof -
  from assms have c: "tab (entriesByType st) (\<lambda>rs. Num (length rs)) rows"
    and z: "tab (entriesSizeByType st) (\<lambda>rs. Num (sum_list (map size_of rs))) rows"
    by (simp_all add: tabulated_def)
  have rd: "read_property (entriesSizeByType st) k = Own (Num (type_total k rows))"
    if "(k, n) \<in> set (entriesByType st)" for k n
    using tab_member[OF c that] tab_read[OF z, of k] by (simp add: type_total_def)
  show ?thesis
  proof
    assume "(t, c, s) \<in> set (kept_types st)"
    then obtain t' c' where m: "(t', c') \<in> set (entriesByType st)"
      and g: "(case read_property (entriesSizeByType st) t' of
                 Own (Num totalSize) \<Rightarrow>
                   if MIN_SIZE_MB \<le> totalSize then Some (t', c', totalSize) else None
               | _ \<Rightarrow> None) = Some (t, c, s)"
      unfolding kept_types_def in_map_filter by auto
    from g show "(t, c) \<in> set (entriesByType st) \<and> s = type_total t rows \<and> MIN_SIZE_MB \<le> s"
      using m by (auto simp: rd[OF m] split: if_splits)
  next
    assume r: "(t, c) \<in> set (entriesByType st) \<and> s = type_total t rows \<and> MIN_SIZE_MB \<le> s"
    then have "(\<lambda>(keyType, count).
                  case read_property (entriesSizeByType st) keyType of
                    Own (Num totalSize) \<Rightarrow>
                      if MIN_SIZE_MB \<le> totalSize then Some (keyType, count, totalSize) else None
                  | _ \<Rightarrow> None) (t, c) = Some (t, c, s)"
      using rd[of t c] by simp
    with r show "(t, c, s) \<in> set (kept_types st)"
      unfolding kept_types_def in_map_filter by blast
  qed
qed

text \<open>
  The filter does what C3 says whenever the loop runs to its end: the three tables keep
  the same names; every name kept has a size that reaches the minimum; counts, sizes and
  samples are those of the rows of the type, the samples being its first three keys in
  scan order.
\<close>

lemma retained_types_reach_the_minimum:
  assumes "global_table w wp = Some rows" and "plain_types rows"
  shows "map fst (entriesSizeByType (fst (analyzeGlobalDatabase w wp io)))
           = map fst (entriesByType (fst (analyzeGlobalDatabase w wp io)))"
    and "map fst (sampleKeys (fst (analyzeGlobalDatabase w wp io)))
           = map fst (entriesByType (fst (analyzeGlobalDatabase w wp io)))"
    and "\<forall>(t, c) \<in> set (entriesByType (fst (analyzeGlobalDatabase w wp io))).
           c = Num (length (rows_of_type t rows)) \<and> MIN_SIZE_MB \<le> type_total t rows"
    and "\<forall>(t, s) \<in> set (entriesSizeByType (fst (analyzeGlobalDatabase w wp io))).
           s = Num (type_total t rows) \<and> MIN_SIZE_MB \<le> type_total t rows"
    and "\<forall>(t, ks) \<in> set (sampleKeys (fst (analyzeGlobalDatabase w wp io))).
           ks = take 3 (map row_key (rows_of_type t rows)) \<and> length ks \<le> 3
           \<and> MIN_SIZE_MB \<le> type_total t rows"
proof -
  let ?st0 = "initial_stats\<lparr>totalEntries := length rows\<rparr>"
  from scan_entries_plain[OF assms(2), of ?st0 "[]"] obtain st' where
    scan: "scan_entries (?st0, []) rows = (None, st', map sized_of (filter measured rows))"
    by auto
  from scan_entries_tabulated[OF initial_tabulated assms(2), of "length rows" "[]"] scan
  have tb: "tabulated st' rows" by simp
  have out: "fst (analyzeGlobalDatabase w wp io)
      = (filter_types st')\<lparr>largestEntries := rank_largest (map sized_of (filter measured rows))\<rparr>"
    by (simp add: analyzeGlobalDatabase_reads[OF assms(1)] analyze_entries_def scan)
  from tb have c: "tab (entriesByType st') (\<lambda>rs. Num (length rs)) rows"
    and k: "tab (sampleKeys st') (\<lambda>rs. take 3 (map row_key rs)) rows"
    by (simp_all add: tabulated_def)
  show "map fst (entriesSizeByType (fst (analyzeGlobalDatabase w wp io)))
           = map fst (entriesByType (fst (analyzeGlobalDatabase w wp io)))"
    unfolding out by (simp add: filter_types_def case_prod_unfold comp_def)
  show "map fst (sampleKeys (fst (analyzeGlobalDatabase w wp io)))
           = map fst (entriesByType (fst (analyzeGlobalDatabase w wp io)))"
    unfolding out by (simp add: filter_types_def case_prod_unfold comp_def)
  show "\<forall>(t, c) \<in> set (entriesByType (fst (analyzeGlobalDatabase w wp io))).
           c = Num (length (rows_of_type t rows)) \<and> MIN_SIZE_MB \<le> type_total t rows"
    unfolding out using kept_types_tabulated[OF tb] tab_member[OF c]
    by (fastforce simp: filter_types_def)
  show "\<forall>(t, s) \<in> set (entriesSizeByType (fst (analyzeGlobalDatabase w wp io))).
           s = Num (type_total t rows) \<and> MIN_SIZE_MB \<le> type_total t rows"
    unfolding out using kept_types_tabulated[OF tb]
    by (fastforce simp: filter_types_def)
  show "\<forall>(t, ks) \<in> set (sampleKeys (fst (analyzeGlobalDatabase w wp io))).
           ks = take 3 (map row_key (rows_of_type t rows)) \<and> length ks \<le> 3
           \<and> MIN_SIZE_MB \<le> type_total t rows"
  proof -
    have "samples_or_empty (sampleKeys st') t = take 3 (map row_key (rows_of_type t rows))"
      if "(t, c) \<in> set (entriesByType st')" for t c
      using tab_member[OF c that] tab_read[OF k, of t] by (simp add: samples_or_empty_def)
    then show ?thesis
      unfolding out using kept_types_tabulated[OF tb]
      by (fastforce simp: filter_types_def)
  qed
qed

text \<open>
  C3 fails on the code. A counted row whose type names a function of \<open>Object.prototype\<close>
  makes the loop throw at \<open>push\<close>; the \<open>catch\<close> returns the tables as they are, never
  filtered: the 1-byte type \<open>bar\<close> is retained, the type \<open>toString\<close> holds a text in
  the count and size tables and has no samples, and nothing is ranked.
\<close>

theorem inherited_type_escapes_the_filter:
  "entriesByType (fst (analyzeGlobalDatabase (global_only inherited_rows) ''/ws'' idle))
     = [(''bar'', Num 1), (''toString'', Text ''toString'' [1])] \<and>
   entriesSizeByType (fst (analyzeGlobalDatabase (global_only inherited_rows) ''/ws'' idle))
     = [(''bar'', Num (1 / 1048576)), (''toString'', Text ''toString'' [1 / 1048576])] \<and>
   sampleKeys (fst (analyzeGlobalDatabase (global_only inherited_rows) ''/ws'' idle))
     = [(''bar'', [''bar:1''])] \<and>
   otherEntries (fst (analyzeGlobalDatabase (global_only inherited_rows) ''/ws'' idle)) = 2 \<and>
   largestEntries (fst (analyzeGlobalDatabase (global_only inherited_rows) ''/ws'' idle)) = []"
  by code_simp

subsection \<open>Failures of the driver\<close>

text \<open>
  C8. When the global database file is absent, or the driver fails to open, read or close
  it, the analyzer returns the all-zero, empty statistics, and the statistics request
  still answers 200 with them.
\<close>

theorem analyzer_failure_gives_initial_stats:
  assumes "\<not> present w (globalDbPath wp) \<or> \<not> opens (database w (globalDbPath wp))
           \<or> rows_of (database w (globalDbPath wp)) cursorDiskKV = None
           \<or> \<not> closes (database w (globalDbPath wp))"
  shows "fst (analyzeGlobalDatabase w wp io)
           = \<lparr>totalEntries = 0, composerEntries = 0, otherEntries = 0, totalSizeMB = 0,
              composerDataSizeMB = 0, otherDataSizeMB = 0, entriesByType = [],
              entriesSizeByType = [], largestEntries = [], sampleKeys = []\<rparr> \<and>
         (WORKSPACE_PATH w = Some wp \<and> wp \<noteq> [] \<and> listing w [wp] \<noteq> None \<longrightarrow>
            (\<exists>details. fst (GET_statistics w io) = Response 200 (Statistics details initial_stats)))"
proof -
  have a: "fst (analyzeGlobalDatabase w wp io') = initial_stats" for io'
    using assms
    by (auto simp: analyzeGlobalDatabase_def db_open_def db_all_def db_close_def
        split: prod.splits sum.splits option.splits)
  have b: "\<exists>details. fst (GET_statistics w io) = Response 200 (Statistics details initial_stats)"
    if "WORKSPACE_PATH w = Some wp" "wp \<noteq> []" "listing w [wp] \<noteq> None"
  proof -
    from that(3) obtain entries where l: "listing w [wp] = Some entries" by auto
    obtain details io1 where s: "scan_workspaces w wp entries [] io = (details, io1)"
      by (cases "scan_workspaces w wp entries [] io") auto
    obtain stats io2 where g: "analyzeGlobalDatabase w wp io1 = (stats, io2)"
      by (cases "analyzeGlobalDatabase w wp io1") auto
    from a[of io1] g have "stats = initial_stats" by simp
    with that l s g show ?thesis by (simp add: GET_statistics_def)
  qed
  from a[of io] b show ?thesis by (simp add: initial_stats_def)
qed

theorem analyzer_failure_witness:
  "rows_of (database unreadable (globalDbPath ''/ws'')) cursorDiskKV = None \<and>
   fst (analyzeGlobalDatabase unreadable ''/ws'' idle)
     = \<lparr>totalEntries = 0, composerEntries = 0, otherEntries = 0, totalSizeMB = 0,
        composerDataSizeMB = 0, otherDataSizeMB = 0, entriesByType = [],
        entriesSizeByType = [], largestEntries = [], sampleKeys = []\<rparr> \<and>
   (\<exists>details. fst (GET_statistics unreadable idle) = Response 200 (Statistics details initial_stats))"
proof -
  have h: "rows_of (database unreadable (globalDbPath ''/ws'')) cursorDiskKV = None"
    by (simp add: unreadable_def)
  have c: "WORKSPACE_PATH unreadable = Some ''/ws'' \<and> ''/ws'' \<noteq> [] \<and> listing unreadable [''/ws''] \<noteq> None"
    by (simp add: unreadable_def)
  from analyzer_failure_gives_initial_stats[of unreadable "''/ws''" idle] h c
  show ?thesis by blast
qed

section \<open>Database handles\<close>

lemma scan_workspace_closes:
  assumes "\<And>p t. rows_of (database w p) t \<noteq> None" and "\<And>p. closes (database w p)"
  shows "open_handles (snd (scan_workspace w wp name io)) = open_handles io"
proof -
  from assms(1)[of "[wp, name, ''state.vscdb'']" ItemTable] obtain rows where
    "rows_of (database w [wp, name, ''state.vscdb'']) ItemTable = Some rows" by auto
  then show ?thesis
    using assms(2)[of "[wp, name, ''state.vscdb'']"]
    by (simp add: scan_workspace_def db_open_def db_get_def db_close_def Let_def)
qed

lemma scan_workspaces_closes:
  assumes "\<And>p t. rows_of (database w p) t \<noteq> None" and "\<And>p. closes (database w p)"
  shows "open_handles (snd (scan_workspaces w wp entries details io)) = open_handles io"
proof (induction entries arbitrary: details io)
  case Nil
  then show ?case by simp
next
  case (Cons entry entries)
  obtain name isDirectory where entry: "entry = (name, isDirectory)" by (cases entry)
  obtain res io' where sw: "scan_workspace w wp name io = (res, io')"
    by (cases "scan_workspace w wp name io") auto
  from scan_workspace_closes[OF assms, of wp name io] sw
  have h: "open_handles io' = open_handles io" by simp
  show ?case
    using Cons.IH[of details io] Cons.IH[of details io'] Cons.IH[of "details @ [the res]" io'] entry sw h
    by (cases res) auto
qed

lemma analyzeGlobalDatabase_closes:
  assumes "\<And>p t. rows_of (database w p) t \<noteq> None" and "\<And>p. closes (database w p)"
  shows "open_handles (snd (analyzeGlobalDatabase w wp io)) = open_handles io"
proof -
  from assms(1)[of "globalDbPath wp" cursorDiskKV] obtain rows where
    "rows_of (database w (globalDbPath wp)) cursorDiskKV = Some rows" by auto
  then show ?thesis
    using assms(2)[of "globalDbPath wp"]
    by (simp add: analyzeGlobalDatabase_def db_open_def db_all_def db_close_def)
qed

text \<open>
  When no statement rejects and \<open>close\<close> resolves, both handlers leave no handle open,
  whatever \<open>JSON.parse\<close> does.
\<close>

lemma handles_closed_when_statements_succeed:
  assumes "\<And>p t. rows_of (database w p) t \<noteq> None" and "\<And>p. closes (database w p)"
  shows "open_handles (snd (GET_entry w key source io)) = open_handles io"
    and "open_handles (snd (GET_statistics w io)) = open_handles io"
proof -
  show "open_handles (snd (GET_entry w key source io)) = open_handles io"
  proof (cases "\<exists>k wp. key = Some k \<and> k \<noteq> [] \<and> WORKSPACE_PATH w = Some wp \<and> wp \<noteq> []
                  \<and> present w (fst (entry_location wp source))
                  \<and> opens (database w (fst (entry_location wp source)))")
    case False
    then show ?thesis
      by (auto simp: GET_entry_def db_open_def split: option.splits prod.splits)
  next
    case True
    then obtain k wp where k: "key = Some k" "k \<noteq> []" "WORKSPACE_PATH w = Some wp" "wp \<noteq> []"
      and p: "present w (fst (entry_location wp source))"
      "opens (database w (fst (entry_location wp source)))" by blast
    obtain loc tbl where l: "entry_location wp source = (loc, tbl)"
      by (cases "entry_location wp source") auto
    from assms(1)[of loc tbl] obtain rows where r: "rows_of (database w loc) tbl = Some rows" by auto
    show ?thesis
      using k p l r assms(2)[of loc]
      by (simp add: GET_entry_def db_open_def db_get_def db_close_def Buffer_byteLength_def
          split: option.splits)
  qed
  show "open_handles (snd (GET_statistics w io)) = open_handles io"
  proof (cases "\<exists>wp entries. WORKSPACE_PATH w = Some wp \<and> wp \<noteq> [] \<and> listing w [wp] = Some entries")
    case False
    then show ?thesis by (auto simp: GET_statistics_def split: option.splits)
  next
    case True
    then obtain wp entries where c: "WORKSPACE_PATH w = Some wp" "wp \<noteq> []"
      "listing w [wp] = Some entries" by blast
    obtain details io1 where s: "scan_workspaces w wp entries [] io = (details, io1)"
      by (cases "scan_workspaces w wp entries [] io") auto
    obtain stats io2 where g: "analyzeGlobalDatabase w wp io1 = (stats, io2)"
      by (cases "analyzeGlobalDatabase w wp io1") auto
    from scan_workspaces_closes[OF assms, of wp entries "[]" io] s
    have "open_handles io1 = open_handles io" by simp
    moreover from analyzeGlobalDatabase_closes[OF assms, of wp io1] g
    have "open_handles io2 = open_handles io1" by simp
    ultimately show ?thesis using c s g by (simp add: GET_statistics_def)
  qed
qed

text \<open>
  C7 fails on the code. No handler closes its handle in a \<open>finally\<close>: when the file
  opens and the statement rejects (a file that is not a database, a missing table), the
  single-entry lookup answers 500, the analyzer returns the empty statistics and the
  scanner drops the workspace, each leaving its handle open.
\<close>

theorem query_failure_leaks_handles:
  "open_handles (snd (GET_entry unreadable (Some ''k'') (Some ''global'') idle))
     = [[''/ws'', ''..'', ''globalStorage'', ''state.vscdb'']] \<and>
   status (fst (GET_entry unreadable (Some ''k'') (Some ''global'') idle)) = 500 \<and>
   open_handles (snd (analyzeGlobalDatabase unreadable ''/ws'' idle))
     = [[''/ws'', ''..'', ''globalStorage'', ''state.vscdb'']] \<and>
   open_handles (snd (GET_statistics unreadable idle))
     = [[''/ws'', ''..'', ''globalStorage'', ''state.vscdb''], [''/ws'', ''w1'', ''state.vscdb'']] \<and>
   status (fst (GET_statistics unreadable idle)) = 200"
  by code_simp

section \<open>Properties of the single-entry lookup\<close>

lemma GET_entry_found_database:
  assumes "WORKSPACE_PATH w = Some wp" "wp \<noteq> []" "k \<noteq> []"
    and "entry_location wp source = (loc, tbl)" "present w loc" "opens (database w loc)"
  shows "GET_entry w (Some k) source io =
     (case db_get w loc tbl k (io\<lparr>open_handles := loc # open_handles io\<rparr>) of
        (Inl e, io2) \<Rightarrow> (Response 500 (EntryError ''Failed to get database entry''), io2)
      | (Inr result, io2) \<Rightarrow>
          (case db_close w loc io2 of
             (Inl e, io3) \<Rightarrow> (Response 500 (EntryError ''Failed to get database entry''), io3)
           | (Inr u, io3) \<Rightarrow>
               (case result of
                  None \<Rightarrow> (Response 404 (EntryError ''Entry not found''), io3)
                | Some row \<Rightarrow>
                    (case Buffer_byteLength (row_value row) of
                       Inl e \<Rightarrow> (Response 500 (EntryError ''Failed to get database entry''), io3)
                     | Inr n \<Rightarrow>
                         (Response 200
                            (Entry \<lparr>entry_key = row_key row, rawValue = row_value row,
                                    parsedValue = parse_or_raw w (row_value row),
                                    entry_source = source, entry_size = n,
                                    sizeFormatted =
                                      nat \<lfloor>100 * (of_nat n / (1024 * 1024) :: rat) + 1 / 2\<rfloor>\<rparr>),
                          io3)))))"
  using assms by (simp add: GET_entry_def db_open_def)

text \<open>
  C9. Without a key the lookup answers 400. With a key and a configured workspace path,
  source \<open>global\<close> resolves to the global store and its table \<open>cursorDiskKV\<close>, any
  other source to \<open>state.vscdb\<close> under that workspace and the table \<open>ItemTable\<close>;
  the answer is 404 when the resolved file does not exist, the one statement run is the
  point lookup of the key in the resolved file and table, and the answer is 404 when the
  table has no row for the key. When the resolved table has a row for the key, with a
  value, the answer is 200 and carries that row's key and value, with the value's size;
  when the resolved table cannot be read the answer is 500.
\<close>

theorem entry_lookup_routes_and_statuses:
  assumes "WORKSPACE_PATH w = Some wp" "wp \<noteq> []" "k \<noteq> []"
    and "entry_location wp source = (loc, tbl)"
  shows "status (fst (GET_entry w None source io)) = 400 \<and>
         status (fst (GET_entry w (Some []) source io)) = 400 \<and>
         (source = Some ''global'' \<longrightarrow>
            loc = [wp, ''..'', ''globalStorage'', ''state.vscdb''] \<and> tbl = cursorDiskKV) \<and>
         (source \<noteq> Some ''global'' \<longrightarrow>
            loc = [wp, (case source of None \<Rightarrow> [] | Some s \<Rightarrow> s), ''state.vscdb'']
            \<and> tbl = ItemTable) \<and>
         (\<not> present w loc \<longrightarrow>
            status (fst (GET_entry w (Some k) source io)) = 404
            \<and> snd (GET_entry w (Some k) source io) = io) \<and>
         (present w loc \<and> opens (database w loc) \<longrightarrow>
            statements (snd (GET_entry w (Some k) source io))
              = statements io @ [(loc, tbl, Some k)]) \<and>
         (present w loc \<and> opens (database w loc) \<and> closes (database w loc)
            \<and> (\<exists>rows. rows_of (database w loc) tbl = Some rows
                  \<and> find (\<lambda>r. row_key r = k) rows = None) \<longrightarrow>
            status (fst (GET_entry w (Some k) source io)) = 404) \<and>
         (\<forall>rows row v.
            present w loc \<and> opens (database w loc) \<and> closes (database w loc)
            \<and> rows_of (database w loc) tbl = Some rows
            \<and> find (\<lambda>r. row_key r = k) rows = Some row \<and> row_value row = Some v \<longrightarrow>
            fst (GET_entry w (Some k) source io)
              = Response 200
                  (Entry \<lparr>entry_key = row_key row, rawValue = Some v,
                          parsedValue = parse_or_raw w (Some v), entry_source = source,
                          entry_size = byteLength v,
                          sizeFormatted =
                            nat \<lfloor>100 * (of_nat (byteLength v) / (1024 * 1024) :: rat) + 1 / 2\<rfloor>\<rparr>)) \<and>
         (present w loc \<and> opens (database w loc) \<and> rows_of (database w loc) tbl = None \<longrightarrow>
            status (fst (GET_entry w (Some k) source io)) = 500)"
proof -
  have missing: "status (fst (GET_entry w None source io)) = 400"
    "status (fst (GET_entry w (Some []) source io)) = 400"
    by (simp_all add: GET_entry_def)
  have route: "source = Some ''global'' \<longrightarrow>
      loc = [wp, ''..'', ''globalStorage'', ''state.vscdb''] \<and> tbl = cursorDiskKV"
    "source \<noteq> Some ''global'' \<longrightarrow>
      loc = [wp, (case source of None \<Rightarrow> [] | Some s \<Rightarrow> s), ''state.vscdb''] \<and> tbl = ItemTable"
    using assms(4) by (auto simp: entry_location_def)
  have absent: "\<not> present w loc \<longrightarrow>
      status (fst (GET_entry w (Some k) source io)) = 404
      \<and> snd (GET_entry w (Some k) source io) = io"
    using assms by (simp add: GET_entry_def)
  have run: "statements (snd (GET_entry w (Some k) source io)) = statements io @ [(loc, tbl, Some k)]"
    if "present w loc" "opens (database w loc)"
    unfolding GET_entry_found_database[OF assms that]
    by (auto simp: db_get_def db_close_def Buffer_byteLength_def
        split: option.splits sum.splits prod.splits)
  have nokey: "status (fst (GET_entry w (Some k) source io)) = 404"
    if "present w loc" "opens (database w loc)" "closes (database w loc)"
      "rows_of (database w loc) tbl = Some rows" "find (\<lambda>r. row_key r = k) rows = None" for rows
    unfolding GET_entry_found_database[OF assms that(1,2)]
    using that(3-5) by (simp add: db_get_def db_close_def)
  have found: "fst (GET_entry w (Some k) source io)
      = Response 200
          (Entry \<lparr>entry_key = row_key row, rawValue = Some v,
                  parsedValue = parse_or_raw w (Some v), entry_source = source,
                  entry_size = byteLength v,
                  sizeFormatted =
                    nat \<lfloor>100 * (of_nat (byteLength v) / (1024 * 1024) :: rat) + 1 / 2\<rfloor>\<rparr>)"
    if "present w loc" "opens (database w loc)" "closes (database w loc)"
      "rows_of (database w loc) tbl = Some rows" "find (\<lambda>r. row_key r = k) rows = Some row"
      "row_value row = Some v" for rows row v
    unfolding GET_entry_found_database[OF assms that(1,2)]
    using that(3-6) by (simp add: db_get_def db_close_def Buffer_byteLength_def)
  have rejected: "status (fst (GET_entry w (Some k) source io)) = 500"
    if "present w loc" "opens (database w loc)" "rows_of (database w loc) tbl = None"
    unfolding GET_entry_found_database[OF assms that(1,2)]
    using that(3) by (simp add: db_get_def)
  from missing route absent run nokey found rejected show ?thesis by blast
qed


theorem entry_lookup_witness:
  "WORKSPACE_PATH two_stores = Some ''/ws'' \<and>
   entry_location ''/ws'' (Some ''global'')
     = ([''/ws'', ''..'', ''globalStorage'', ''state.vscdb''], cursorDiskKV) \<and>
   entry_location ''/ws'' (Some ''w1'') = ([''/ws'', ''w1'', ''state.vscdb''], ItemTable) \<and>
   status (fst (GET_entry two_stores None (Some ''global'') idle)) = 400 \<and>
   statements (snd (GET_entry two_stores (Some ''k'') (Some ''global'') idle))
     = [([''/ws'', ''..'', ''globalStorage'', ''state.vscdb''], cursorDiskKV, Some ''k'')] \<and>
   fst (GET_entry two_stores (Some ''k'') (Some ''global'') idle)
     = Response 200
         (Entry \<lparr>entry_key = ''k'', rawValue = Some ''global value'',
                 parsedValue = Unparsed ''global value'', entry_source = Some ''global'',
                 entry_size = 12, sizeFormatted = 0\<rparr>) \<and>
   statements (snd (GET_entry two_stores (Some ''k'') (Some ''w1'') idle))
     = [([''/ws'', ''w1'', ''state.vscdb''], ItemTable, Some ''k'')] \<and>
   fst (GET_entry two_stores (Some ''k'') (Some ''w1'') idle)
     = Response 200
         (Entry \<lparr>entry_key = ''k'', rawValue = Some ''workspace value'',
                 parsedValue = Unparsed ''workspace value'', entry_source = Some ''w1'',
                 entry_size = 15, sizeFormatted = 0\<rparr>) \<and>
   status (fst (GET_entry two_stores (Some ''other'') (Some ''w1'') idle)) = 404 \<and>
   status (fst (GET_entry two_stores (Some ''k'') (Some ''w2'') idle)) = 404"
proof -
  let ?g = "[''/ws'', ''..'', ''globalStorage'', ''state.vscdb'']"
  let ?w = "[''/ws'', ''w1'', ''state.vscdb'']"
  have h1: "WORKSPACE_PATH two_stores = Some ''/ws''" by (simp add: two_stores_def)
  have h2: "''/ws'' \<noteq> []" "''k'' \<noteq> []" "''other'' \<noteq> []" by simp_all
  have lg: "entry_location ''/ws'' (Some ''global'') = (?g, cursorDiskKV)"
    and lw: "entry_location ''/ws'' (Some ''w1'') = (?w, ItemTable)"
    and l2: "entry_location ''/ws'' (Some ''w2'') = ([''/ws'', ''w2'', ''state.vscdb''], ItemTable)"
    by (simp_all add: entry_location_def)
  have g: "present two_stores ?g" "opens (database two_stores ?g)" "closes (database two_stores ?g)"
    "rows_of (database two_stores ?g) cursorDiskKV
       = Some [\<lparr>row_key = ''other'', row_value = Some ''o''\<rparr>,
               \<lparr>row_key = ''k'', row_value = Some ''global value''\<rparr>]"
    by (simp_all add: two_stores_def)
  have w: "present two_stores ?w" "opens (database two_stores ?w)" "closes (database two_stores ?w)"
    "rows_of (database two_stores ?w) ItemTable
       = Some [\<lparr>row_key = ''k'', row_value = Some ''workspace value''\<rparr>]"
    by (simp_all add: two_stores_def)
  have n: "\<not> present two_stores [''/ws'', ''w2'', ''state.vscdb'']" by (simp add: two_stores_def)
  have p: "parse_or_raw two_stores (Some s) = Unparsed s" for s
    by (simp add: parse_or_raw_def two_stores_def)
  note G = entry_lookup_routes_and_statuses[OF h1 h2(1,2) lg, of idle]
  note W = entry_lookup_routes_and_statuses[OF h1 h2(1,2) lw, of idle]
  note O = entry_lookup_routes_and_statuses[OF h1 h2(1,3) lw, of idle]
  note N = entry_lookup_routes_and_statuses[OF h1 h2(1,2) l2, of idle]
  from G have "status (fst (GET_entry two_stores None (Some ''global'') idle)) = 400" by blast
  moreover from G g have "statements (snd (GET_entry two_stores (Some ''k'') (Some ''global'') idle))
      = [(?g, cursorDiskKV, Some ''k'')]" by (simp add: idle_def)
  moreover from G g have "fst (GET_entry two_stores (Some ''k'') (Some ''global'') idle)
     = Response 200
         (Entry \<lparr>entry_key = ''k'', rawValue = Some ''global value'',
                 parsedValue = Unparsed ''global value'', entry_source = Some ''global'',
                 entry_size = 12, sizeFormatted = 0\<rparr>)" by (simp add: p byteLength_def)
  moreover from W w have "statements (snd (GET_entry two_stores (Some ''k'') (Some ''w1'') idle))
      = [(?w, ItemTable, Some ''k'')]" by (simp add: idle_def)
  moreover from W w have "fst (GET_entry two_stores (Some ''k'') (Some ''w1'') idle)
     = Response 200
         (Entry \<lparr>entry_key = ''k'', rawValue = Some ''workspace value'',
                 parsedValue = Unparsed ''workspace value'', entry_source = Some ''w1'',
                 entry_size = 15, sizeFormatted = 0\<rparr>)" by (simp add: p byteLength_def)
  moreover from O w have "status (fst (GET_entry two_stores (Some ''other'') (Some ''w1'') idle)) = 404"
    by simp
  moreover from N n have "status (fst (GET_entry two_stores (Some ''k'') (Some ''w2'') idle)) = 404"
    by simp
  ultimately show ?thesis using h1 lg lw by simp
qed

text \<open>
  C10. When the row found has a null value, measuring it throws a TypeError and the
  lookup answers with the generic 500.
\<close>

theorem null_value_is_a_server_error:
  assumes "WORKSPACE_PATH w = Some wp" "wp \<noteq> []" "k \<noteq> []"
    and "entry_location wp source = (loc, tbl)"
    and "present w loc" "opens (database w loc)" "closes (database w loc)"
    and "rows_of (database w loc) tbl = Some rows"
    and "find (\<lambda>r. row_key r = k) rows = Some row" "row_value row = None"
  shows "(\<exists>e. Buffer_byteLength (row_value row) = Inl (TypeError e)) \<and>
         fst (GET_entry w (Some k) source io)
           = Response 500 (EntryError ''Failed to get database entry'')"
  unfolding GET_entry_found_database[OF assms(1-6)]
  using assms(7-10) by (simp add: db_get_def db_close_def Buffer_byteLength_def)

theorem null_value_witness:
  "find (\<lambda>r. row_key r = ''k'') null_row = None \<and>
   find (\<lambda>r. row_key r = ''a'') null_row = Some \<lparr>row_key = ''a'', row_value = None\<rparr> \<and>
   fst (GET_entry (global_only null_row) (Some ''a'') (Some ''global'') idle)
     = Response 500 (EntryError ''Failed to get database entry'')"
proof -
  have h1: "WORKSPACE_PATH (global_only null_row) = Some ''/ws''" by (simp add: global_only_def)
  have h2: "''/ws'' \<noteq> []" "''a'' \<noteq> []" by simp_all
  have h3: "entry_location ''/ws'' (Some ''global'') = (globalDbPath ''/ws'', cursorDiskKV)"
    by (simp add: entry_location_def globalDbPath_def)
  have w: "present (global_only null_row) (globalDbPath ''/ws'')"
    "opens (database (global_only null_row) (globalDbPath ''/ws''))"
    "closes (database (global_only null_row) (globalDbPath ''/ws''))"
    "rows_of (database (global_only null_row) (globalDbPath ''/ws'')) cursorDiskKV = Some null_row"
    by (simp_all add: global_only_def)
  have f: "find (\<lambda>r. row_key r = ''a'') null_row = Some \<lparr>row_key = ''a'', row_value = None\<rparr>"
    "find (\<lambda>r. row_key r = ''k'') null_row = None"
    by (simp_all add: null_row_def)
  have v: "row_value \<lparr>row_key = ''a'', row_value = None\<rparr> = None" by simp
  from null_value_is_a_server_error[OF h1 h2 h3 w f(1) v, of idle] f show ?thesis by simp
qed

section \<open>Properties of the workspace scanner\<close>

lemma malformed_count_and_size:
  "malformed w v \<Longrightarrow> truthy_value v \<and> found_count_and_size w field v = (JNum 0, 0)"
  by (auto simp: malformed_def truthy_value_def found_count_and_size_def count_and_size_def
      split: option.splits)

lemma scan_workspace_readable:
  assumes "readable_workspace w wp name"
  shows "\<exists>r io'. scan_workspace w wp name io = (Some r, io') \<and> ws_id r = name \<and>
           hasChats r = truthy_value (stored_value w wp name ''workbench.panel.aichat.view.aichat.chatdata'') \<and>
           (chatCount r, chatDataSizeMB r)
             = found_count_and_size w ''tabs''
                 (stored_value w wp name ''workbench.panel.aichat.view.aichat.chatdata'') \<and>
           hasComposers r = truthy_value (stored_value w wp name ''composer.composerData'') \<and>
           (composerCount r, ws_composerDataSizeMB r)
             = found_count_and_size w ''allComposers'' (stored_value w wp name ''composer.composerData'')"
proof -
  from assms obtain rows where
    "rows_of (database w [wp, name, ''state.vscdb'']) ItemTable = Some rows"
    "opens (database w [wp, name, ''state.vscdb''])" "closes (database w [wp, name, ''state.vscdb''])"
    by (auto simp: readable_workspace_def workspaceDb_def)
  then show ?thesis
    by (simp add: scan_workspace_def db_open_def db_get_def db_close_def stored_value_def
        workspaceDb_def Let_def)
qed

lemma scan_workspaces_keeps:
  "set details \<subseteq> set (fst (scan_workspaces w wp entries details io))"
proof (induction entries arbitrary: details io)
  case Nil
  then show ?case by simp
next
  case (Cons entry entries)
  obtain name isDirectory where entry: "entry = (name, isDirectory)" by (cases entry)
  show ?case
  proof (cases "isDirectory \<and> present w [wp, name, ''state.vscdb'']")
    case False
    with Cons.IH[of details io] entry show ?thesis by auto
  next
    case True
    obtain res io' where sw: "scan_workspace w wp name io = (res, io')"
      by (cases "scan_workspace w wp name io") auto
    show ?thesis
    proof (cases res)
      case None
      with Cons.IH[of details io'] entry True sw show ?thesis by simp
    next
      case (Some r)
      with Cons.IH[of "details @ [r]" io'] entry True sw show ?thesis by simp
    qed
  qed
qed

lemma scan_workspaces_contains:
  assumes "(name, True) \<in> set entries" and "present w [wp, name, ''state.vscdb'']"
    and "\<And>io. \<exists>r io'. scan_workspace w wp name io = (Some r, io') \<and> P r"
  shows "\<exists>r \<in> set (fst (scan_workspaces w wp entries details io)). P r"
  using assms(1)
proof (induction entries arbitrary: details io)
  case Nil
  then show ?case by simp
next
  case (Cons entry entries)
  obtain name' isDirectory where entry: "entry = (name', isDirectory)" by (cases entry)
  show ?case
  proof (cases "entry = (name, True)")
    case True
    from assms(3)[of io] obtain r io' where
      sw: "scan_workspace w wp name io = (Some r, io')" and P: "P r" by blast
    have "r \<in> set (details @ [r])" by simp
    with scan_workspaces_keeps[of "details @ [r]" w wp entries io']
    have "r \<in> set (fst (scan_workspaces w wp entries (details @ [r]) io'))" by blast
    with True sw assms(2) P show ?thesis by auto
  next
    case False
    with Cons.prems have later: "(name, True) \<in> set entries" by auto
    show ?thesis
    proof (cases "isDirectory \<and> present w [wp, name', ''state.vscdb'']")
      case False
      with Cons.IH[OF later, of details io] entry show ?thesis by auto
    next
      case True
      obtain res io' where sw: "scan_workspace w wp name' io = (res, io')"
        by (cases "scan_workspace w wp name' io") auto
      show ?thesis
      proof (cases res)
        case None
        with Cons.IH[OF later, of details io'] entry True sw show ?thesis by simp
      next
        case (Some r)
        with Cons.IH[OF later, of "details @ [r]" io'] entry True sw show ?thesis by simp
      qed
    qed
  qed
qed

text \<open>
  C5 (as amended). A listed workspace directory whose database opens, answers and closes
  has its record in the 200 answer; when its chat row (its composer row) holds a
  non-empty value that \<open>JSON.parse\<close> rejects, the record has \<open>hasChats\<close>
  (\<open>hasComposers\<close>) true, count 0 and size 0.
\<close>

theorem malformed_json_keeps_the_workspace:
  assumes "WORKSPACE_PATH w = Some wp" "wp \<noteq> []" "listing w [wp] = Some entries"
    and "(name, True) \<in> set entries" "readable_workspace w wp name"
  shows "\<exists>details stats.
           fst (GET_statistics w io) = Response 200 (Statistics details stats) \<and>
           (\<exists>r \<in> set details. ws_id r = name \<and>
              (malformed w (stored_value w wp name ''workbench.panel.aichat.view.aichat.chatdata'') \<longrightarrow>
                 hasChats r \<and> chatCount r = JNum 0 \<and> chatDataSizeMB r = 0) \<and>
              (malformed w (stored_value w wp name ''composer.composerData'') \<longrightarrow>
                 hasComposers r \<and> composerCount r = JNum 0 \<and> ws_composerDataSizeMB r = 0))"
proof -
  let ?P = "\<lambda>r. ws_id r = name \<and>
      (malformed w (stored_value w wp name ''workbench.panel.aichat.view.aichat.chatdata'') \<longrightarrow>
         hasChats r \<and> chatCount r = JNum 0 \<and> chatDataSizeMB r = 0) \<and>
      (malformed w (stored_value w wp name ''composer.composerData'') \<longrightarrow>
         hasComposers r \<and> composerCount r = JNum 0 \<and> ws_composerDataSizeMB r = 0)"
  have one: "\<exists>r io'. scan_workspace w wp name io0 = (Some r, io') \<and> ?P r" for io0
    using scan_workspace_readable[OF assms(5), of io0]
      malformed_count_and_size[of w "stored_value w wp name ''workbench.panel.aichat.view.aichat.chatdata''" "''tabs''"]
      malformed_count_and_size[of w "stored_value w wp name ''composer.composerData''" "''allComposers''"]
    by (metis prod.inject)
  from assms(5) have here: "present w [wp, name, ''state.vscdb'']"
    by (simp add: readable_workspace_def workspaceDb_def)
  obtain details io1 where s: "scan_workspaces w wp entries [] io = (details, io1)"
    by (cases "scan_workspaces w wp entries [] io") auto
  obtain stats io2 where g: "analyzeGlobalDatabase w wp io1 = (stats, io2)"
    by (cases "analyzeGlobalDatabase w wp io1") auto
  from scan_workspaces_contains[of name entries w wp ?P "[]" io, OF assms(4) here one] s
  have "\<exists>r \<in> set details. ?P r" by simp
  moreover have "fst (GET_statistics w io) = Response 200 (Statistics details stats)"
    using assms(1-3) s g by (simp add: GET_statistics_def)
  ultimately show ?thesis by blast
qed

theorem malformed_json_witness:
  "(''w1'', True) \<in> set [(''README'', False), (''w1'', True)] \<and>
   readable_workspace broken_chat ''/ws'' ''w1'' \<and>
   malformed broken_chat (stored_value broken_chat ''/ws'' ''w1'' ''workbench.panel.aichat.view.aichat.chatdata'') \<and>
   (\<exists>details stats.
      fst (GET_statistics broken_chat idle) = Response 200 (Statistics details stats) \<and>
      (\<exists>r \<in> set details. ws_id r = ''w1'' \<and> hasChats r \<and> chatCount r = JNum 0 \<and> chatDataSizeMB r = 0))"
proof -
  have h: "WORKSPACE_PATH broken_chat = Some ''/ws''" "''/ws'' \<noteq> []"
    "listing broken_chat [''/ws''] = Some [(''README'', False), (''w1'', True)]"
    "(''w1'', True) \<in> set [(''README'', False), (''w1'', True)]"
    by (simp_all add: broken_chat_def)
  have r: "readable_workspace broken_chat ''/ws'' ''w1''"
    by (simp add: readable_workspace_def workspaceDb_def broken_chat_def)
  have m: "malformed broken_chat
      (stored_value broken_chat ''/ws'' ''w1'' ''workbench.panel.aichat.view.aichat.chatdata'')"
    by (simp add: malformed_def stored_value_def workspaceDb_def broken_chat_def value_of_result_def)
  from malformed_json_keeps_the_workspace[OF h r, of idle] m h(4) r show ?thesis by blast
qed

text \<open>
  C5 as stated fails: the size is assigned after \<open>JSON.parse\<close> inside the same
  \<open>try\<close>, so it stays 0 and is not the byte length of the raw value.
\<close>

theorem malformed_chat_size_counterexample:
  "map (\<lambda>r. (ws_id r, hasChats r, chatCount r, chatDataSizeMB r))
     (workspaceDetails (body (fst (GET_statistics broken_chat idle))))
   \<noteq> [(''w1'', True, JNum 0, calculateDataSizeMB (Some ''{''))]"
  by code_simp

section \<open>Properties of the workspace pruner\<close>





lemma rm_result:
  "fst (rm t d) = (case rm_fails t d of None \<Rightarrow> None | Some m \<Rightarrow> Some (SystemError m))"
  by (simp add: rm_def split: option.splits)













text \<open>
  A batch of three identifiers of which one is missing removes two and reports one error.
  The empty identifier names the workspace root itself: once the root is removed, an
  identifier listed after it is reported as not found although its directory was there.
\<close>

lemma one_missing_of_three:
  "fst (DELETE_workspaces configured three_workspaces (Inr (ids_body [''a'', ''b'', ''c''])))
     = Response 200 (Pruned True [''a'', ''c''] 2 [(JStr ''b'', ''Workspace directory not found'')])"
  by code_simp

lemma empty_identifier_names_the_root:
  "locate three_workspaces ''/ws'' [] = ([''ws''], False) \<and>
   shadowed three_workspaces ''/ws'' [[], ''a''] ''a'' \<and>
   fst (DELETE_workspaces configured three_workspaces (Inr (ids_body [[], ''a''])))
     = Response 200 (Pruned True [[]] 1 [(JStr ''a'', ''Workspace directory not found'')])"
  by code_simp

end
